theory Spec2Isabelle
  imports Complex_Main
begin

section \<open>Numbers, records and settings\<close>

text \<open>
  The front end exists in two near-identical variants: \<^verbatim>\<open>src/scripts/app.js\<close>, which
  synchronises with a document store, and \<^verbatim>\<open>src/unnamed/part_000\<close>, which talks to the
  REST server whose code is the tail of \<^verbatim>\<open>app.js\<close>. The scheduler (\<^verbatim>\<open>gradeCard\<close>,
  \<^verbatim>\<open>buildQueues\<close>, \<^verbatim>\<open>pickNextCard\<close>) is the same text in both; the load and save
  protocols differ and are modelled once per variant.

  A JavaScript number is modelled as a rational: every finite double is one, and the
  arithmetic of the scheduler is taken exactly, without the rounding error of doubles;
  the grade update is given a second time further down with that rounding written out.
  \<^verbatim>\<open>NaN\<close> and the infinities appear only in the model of the server's sanitizer, which
  is the one place where the code tests for them. A field that the code reads through
  \<^verbatim>\<open>x || d\<close> or a truth test may be unset and is an \<open>option\<close>; the other fields are
  plain numbers. The object \<^verbatim>\<open>progress.cards\<close> is a map from words to records; a word
  that names a property every object inherits (\<^verbatim>\<open>constructor\<close>, say) is not modelled.
\<close>

type_synonym num = rat

record entry =
  ease :: "num option"
  interval :: num
  repetitions :: num
  due :: "num option"
  lastReview :: "num option"
  totalReviews :: num
  lapses :: "num option"
  seen :: bool

record daily_meta =
  lastReviewDay :: string
  reviewsToday :: num
  newToday :: num

record snapshot =
  cards :: "string \<rightharpoonup> entry"
  meta :: daily_meta

record settings =
  dailyNewLimit :: num
  lapseMinutes :: num

datatype kind = New | Review

text \<open>The scheduling part of \<^verbatim>\<open>DEFAULT_SETTINGS\<close>.\<close>

definition DEFAULT_SETTINGS :: settings where
  "DEFAULT_SETTINGS = \<lparr>dailyNewLimit = 20, lapseMinutes = 10\<rparr>"

text \<open>\<^verbatim>\<open>x || d\<close> on a numeric field: an unset field and the number 0 are both falsy.\<close>

definition or_default :: "num option \<Rightarrow> num \<Rightarrow> num" where
  "or_default x d = (case x of None \<Rightarrow> d | Some v \<Rightarrow> if v = 0 then d else v)"

text \<open>The truth value of a numeric field, as in \<^verbatim>\<open>entry.due && ...\<close> and \<^verbatim>\<open>!entry.due\<close>.\<close>

definition truthy :: "num option \<Rightarrow> bool" where
  "truthy x = (case x of None \<Rightarrow> False | Some v \<Rightarrow> v \<noteq> 0)"

text \<open>\<^verbatim>\<open>Math.round\<close>: the nearest integer, a tie going up.\<close>

definition Math_round :: "num \<Rightarrow> num" where
  "Math_round x = of_int \<lfloor>x + 1 / 2\<rfloor>"

section \<open>The grade update of \<^verbatim>\<open>gradeCard\<close>\<close>

text \<open>The record that \<^verbatim>\<open>gradeCard\<close> starts from when the word has none.\<close>

definition fresh_entry :: "num \<Rightarrow> entry" where
  "fresh_entry now =
     \<lparr>ease = Some (5 / 2), interval = 0, repetitions = 0, due = Some now,
      lastReview = None, totalReviews = 0, lapses = Some 0, seen = False\<rparr>"

text \<open>The day rollover at the head of \<^verbatim>\<open>gradeCard\<close>.\<close>

definition rollover :: "string \<Rightarrow> daily_meta \<Rightarrow> daily_meta" where
  "rollover today m =
     (if lastReviewDay m \<noteq> today
      then m\<lparr>lastReviewDay := today, reviewsToday := 0, newToday := 0\<rparr>
      else m)"

text \<open>
  The first grading of a card served from the new queue:
  \<^verbatim>\<open>if (state.currentKind === 'new' && !entry.seen) { ... }\<close>.
\<close>

definition count_new :: "settings \<Rightarrow> kind option \<Rightarrow> daily_meta \<times> entry \<Rightarrow> daily_meta \<times> entry" where
  "count_new st k me =
     (case me of (m, e) \<Rightarrow>
        if k = Some New \<and> \<not> seen e
        then (m\<lparr>newToday := min (dailyNewLimit st) (newToday m + 1)\<rparr>, e\<lparr>seen := True\<rparr>)
        else (m, e))"

text \<open>The branch on the grade, with the assignments in the order of the source.\<close>

definition hard_step :: "num \<Rightarrow> entry \<Rightarrow> entry" where
  "hard_step es e =
     e\<lparr>ease := Some (max (13 / 10) (es - 3 / 20)),
       interval := (if interval e \<noteq> 0 then max 1 (Math_round (interval e * (6 / 5))) else 1)\<rparr>"

definition good_step :: "num \<Rightarrow> entry \<Rightarrow> entry" where
  "good_step es e =
     e\<lparr>interval :=
         (if repetitions e = 0 then 1
          else if repetitions e = 1 then 6
          else max 1 (Math_round (interval e * es))),
       repetitions := repetitions e + 1\<rparr>"

definition easy_step :: "num \<Rightarrow> entry \<Rightarrow> entry" where
  "easy_step es e =
     (let es' = es + 3 / 20
      in e\<lparr>ease := Some es',
           interval :=
             (if repetitions e = 0 then 4
              else if repetitions e = 1 then Math_round (interval e * (5 / 2))
              else max 1 (Math_round (interval e * es' * (13 / 10)))),
           repetitions := repetitions e + 1\<rparr>)"

text \<open>
  \<open>es\<close> is the ease after \<^verbatim>\<open>entry.ease = entry.ease || 2.5\<close>, which the three
  branches read. A grade other than 0, 1, 2, 3 changes neither ease nor interval.
\<close>

definition reschedule :: "settings \<Rightarrow> int \<Rightarrow> num \<Rightarrow> entry \<Rightarrow> entry" where
  "reschedule st grade now e =
     (if grade = 0
      then e\<lparr>repetitions := 0,
             interval := 0,
             ease := Some (max (13 / 10) (or_default (ease e) (5 / 2) - 1 / 5)),
             due := Some (now + lapseMinutes st * 60 * 1000),
             lapses := Some (or_default (lapses e) 0 + 1)\<rparr>
      else
        let es = or_default (ease e) (5 / 2);
            e1 = e\<lparr>ease := Some es\<rparr>;
            e2 = (if grade = 1 then hard_step es e1
                  else if grade = 2 then good_step es e1
                  else if grade = 3 then easy_step es e1
                  else e1)
        in e2\<lparr>due := Some (now + (if interval e2 \<noteq> 0 then interval e2 else 1) * 86400000)\<rparr>)"

text \<open>
  The whole update of one record and the daily counters: rollover, new-word count,
  the two unconditional increments, the branch on the grade, \<^verbatim>\<open>lastReview\<close>.
\<close>

definition grade_entry ::
  "settings \<Rightarrow> kind option \<Rightarrow> int \<Rightarrow> num \<Rightarrow> string \<Rightarrow> daily_meta \<times> entry \<Rightarrow> daily_meta \<times> entry" where
  "grade_entry st k grade now today me =
     (case count_new st k (rollover today (fst me), snd me) of (m, e) \<Rightarrow>
        (m\<lparr>reviewsToday := reviewsToday m + 1\<rparr>,
         (reschedule st grade now (e\<lparr>totalReviews := totalReviews e + 1\<rparr>))\<lparr>lastReview := Some now\<rparr>))"

definition grade_update ::
  "settings \<Rightarrow> string \<Rightarrow> kind option \<Rightarrow> int \<Rightarrow> num \<Rightarrow> string \<Rightarrow> snapshot \<Rightarrow> snapshot" where
  "grade_update st w k grade now today p =
     (let e0 = (case cards p w of Some e \<Rightarrow> e | None \<Rightarrow> fresh_entry now)
      in case grade_entry st k grade now today (meta p, e0) of (m, e) \<Rightarrow>
           p\<lparr>cards := (cards p)(w \<mapsto> e), meta := m\<rparr>)"

text \<open>
  A run of grading events on the record of one word, and on a whole snapshot. An event
  carries what \<^verbatim>\<open>gradeCard\<close> reads besides the snapshot: the card's kind, the grade,
  the clock and the day key.
\<close>

fun grade_entry_seq ::
  "settings \<Rightarrow> (kind option \<times> int \<times> num \<times> string) list \<Rightarrow> daily_meta \<times> entry \<Rightarrow> daily_meta \<times> entry" where
  "grade_entry_seq st [] me = me"
| "grade_entry_seq st ((k, grade, now, today) # evs) me =
     grade_entry_seq st evs (grade_entry st k grade now today me)"

record grade_event =
  ev_word :: string
  ev_kind :: "kind option"
  ev_grade :: int
  ev_now :: num
  ev_today :: string

fun grade_events :: "settings \<Rightarrow> grade_event list \<Rightarrow> snapshot \<Rightarrow> snapshot" where
  "grade_events st [] p = p"
| "grade_events st (ev # evs) p =
     grade_events st evs
       (grade_update st (ev_word ev) (ev_kind ev) (ev_grade ev) (ev_now ev) (ev_today ev) p)"

section \<open>Queues: \<^verbatim>\<open>buildQueues\<close> and \<^verbatim>\<open>pickNextCard\<close>\<close>

record card =
  word :: string
  translation :: string
  level :: "string option"

text \<open>
  \<^verbatim>\<open>toUpperCase\<close> on the letters a to z; the level tags of the catalogue are ASCII.
\<close>

definition upper_char :: "char \<Rightarrow> char" where
  "upper_char c =
     (case map_of (zip ''abcdefghijklmnopqrstuvwxyz'' ''ABCDEFGHIJKLMNOPQRSTUVWXYZ'') c of
        Some u \<Rightarrow> u | None \<Rightarrow> c)"

definition toUpperCase :: "string \<Rightarrow> string" where
  "toUpperCase s = map upper_char s"

definition matchesLevel :: "card \<Rightarrow> string \<Rightarrow> bool" where
  "matchesLevel c lv =
     (if lv = ''all'' then True
      else toUpperCase (case level c of None \<Rightarrow> [] | Some l \<Rightarrow> l) = toUpperCase lv)"

text \<open>\<^verbatim>\<open>entry.due && entry.due <= now\<close>.\<close>

definition due_now :: "num option \<Rightarrow> num \<Rightarrow> bool" where
  "due_now d now = (case d of None \<Rightarrow> False | Some v \<Rightarrow> v \<noteq> 0 \<and> v \<le> now)"

text \<open>
  The first loop of \<^verbatim>\<open>buildQueues\<close>: the pair of the lists \<^verbatim>\<open>review\<close> and
  \<^verbatim>\<open>fresh\<close>, each in catalogue order.
\<close>

fun partition_cards :: "(string \<rightharpoonup> entry) \<Rightarrow> num \<Rightarrow> card list \<Rightarrow> card list \<times> card list" where
  "partition_cards cs now [] = ([], [])"
| "partition_cards cs now (c # rest) =
     (case partition_cards cs now rest of (review, fresh) \<Rightarrow>
        (case cs (word c) of
           None \<Rightarrow> (review, c # fresh)
         | Some e \<Rightarrow>
             if due_now (due e) now then (c # review, fresh)
             else if \<not> truthy (due e) then (review, c # fresh)
             else (review, fresh)))"

text \<open>
  The key of \<^verbatim>\<open>review.sort\<close>, \<^verbatim>\<open>progress.cards[a.word]?.due ?? 0\<close>. The sort of the
  language is stable, as \<open>sort_key\<close> is.
\<close>

definition due_key :: "(string \<rightharpoonup> entry) \<Rightarrow> card \<Rightarrow> num" where
  "due_key cs c =
     (case cs (word c) of None \<Rightarrow> 0 | Some e \<Rightarrow> (case due e of None \<Rightarrow> 0 | Some d \<Rightarrow> d))"

text \<open>The second loop: cards are pushed until the queue is as long as the quota.\<close>

fun fill_new :: "num \<Rightarrow> card list \<Rightarrow> card list \<Rightarrow> card list" where
  "fill_new remaining acc [] = acc"
| "fill_new remaining acc (c # rest) =
     (if remaining \<le> of_nat (length acc) then acc else fill_new remaining (acc @ [c]) rest)"

record history_entry =
  hword :: string
  hmode :: string
  hgrade :: int
  timestamp :: num

section \<open>Errors, notices and the state of the application\<close>

text \<open>
  A thrown value. \<open>Error m\<close> is an error object with message \<open>m\<close>: the REST variant
  throws \<^verbatim>\<open>new Error('Unauthorized')\<close> itself, and a rejected network call brings its
  own message. \<open>StatusError n\<close> is \<^verbatim>\<open>new Error(`Unexpected status ${n}`)\<close>, and
  \<open>TypeError\<close> is what a property read of \<^verbatim>\<open>null\<close> throws.
\<close>

datatype js_error = Error string | StatusError nat | TypeError

text \<open>\<^verbatim>\<open>error?.message !== 'Unauthorized'\<close>.\<close>

definition not_unauthorized :: "js_error \<Rightarrow> bool" where
  "not_unauthorized e = (case e of Error m \<Rightarrow> m \<noteq> ''Unauthorized'' | _ \<Rightarrow> True)"

text \<open>
  The texts passed to \<^verbatim>\<open>showAuthMessage\<close>, one constructor per text; \<open>NoNotice\<close> is
  the empty string.
\<close>

datatype notice =
    NoNotice
  | NoCloudData
  | CloudLoadFailed
  | CloudSyncFailed
  | SyncServerUnavailable
  | SessionExpired
  | ServerLoadFailed
  | AwaitingGoogle
  | SignInToSync
  | ServerSyncFailed

text \<open>
  What a stored or fetched snapshot may look like before \<^verbatim>\<open>ensureProgressForToday\<close>
  has repaired it: either field may be missing. A field holding a value that is neither
  missing nor an object is not modelled.
\<close>

record raw_snapshot =
  raw_cards :: "(string \<rightharpoonup> entry) option"
  raw_meta :: "daily_meta option"

text \<open>
  An item of the local storage: a text that \<^verbatim>\<open>JSON.parse\<close> rejects (or that parses to
  \<^verbatim>\<open>null\<close>, whose property read throws into the same handler), or a parsed object.
\<close>

datatype ls_item = Unparsable | Json raw_snapshot

record app =
  progress :: snapshot
  history :: "history_entry list"
  reviewQueue :: "card list"
  newQueue :: "card list"
  filteredCards :: "card list"
  currentCard :: "card option"
  currentKind :: "kind option"
  showingAnswer :: bool
  mode :: string
  level_filter :: string
  savePending :: bool
  currentUser :: "string option"
  currentIdToken :: "string option"
  localStorage :: "string \<rightharpoonup> ls_item"
  authMessage :: notice
  keepAuthMessage :: bool
  reauthPrompted :: bool

text \<open>
  \<open>currentUser\<close> is the identifier of the signed-in learner (\<^verbatim>\<open>currentUser.id\<close> in one
  variant, \<^verbatim>\<open>currentUser.sub\<close> in the other); \<open>savePending\<close> says that the debounce
  timer of \<^verbatim>\<open>saveProgress\<close> is set; \<open>reauthPrompted\<close> that the identity provider was
  asked to prompt.
\<close>

text \<open>
  \<^verbatim>\<open>buildQueues\<close>: the level filter, the two buckets \<^verbatim>\<open>review\<close> and \<^verbatim>\<open>fresh\<close> of
  the first loop, the sort of the first and the truncation of the second.
\<close>

definition level_filtered :: "card list \<Rightarrow> app \<Rightarrow> card list" where
  "level_filtered catalog s = filter (\<lambda>c. matchesLevel c (level_filter s)) catalog"

definition buckets :: "card list \<Rightarrow> num \<Rightarrow> app \<Rightarrow> card list \<times> card list" where
  "buckets catalog now s =
     partition_cards (cards (progress s)) now (level_filtered catalog s)"

definition buildQueues :: "settings \<Rightarrow> card list \<Rightarrow> num \<Rightarrow> app \<Rightarrow> app" where
  "buildQueues st catalog now s =
     (case buckets catalog now s of (review, fresh) \<Rightarrow>
        s\<lparr>filteredCards := level_filtered catalog s,
          reviewQueue := sort_key (due_key (cards (progress s))) review,
          newQueue :=
            fill_new (max 0 (dailyNewLimit st - newToday (meta (progress s)))) [] fresh\<rparr>)"

definition pickNextCard :: "app \<Rightarrow> app" where
  "pickNextCard s =
     (case reviewQueue s of
        c # rest \<Rightarrow> s\<lparr>reviewQueue := rest, currentCard := Some c, currentKind := Some Review\<rparr>
      | [] \<Rightarrow>
          (case newQueue s of
             c # rest \<Rightarrow> s\<lparr>newQueue := rest, currentCard := Some c, currentKind := Some New\<rparr>
           | [] \<Rightarrow> s\<lparr>currentCard := None, currentKind := None\<rparr>))"

text \<open>
  \<^verbatim>\<open>gradeCard\<close>. \<open>now\<close> and \<open>today\<close> are the clock and the day key it reads at its head,
  \<open>now'\<close> the clock that \<^verbatim>\<open>buildQueues\<close> reads at its end. \<^verbatim>\<open>saveProgress()\<close> without
  \<^verbatim>\<open>immediate\<close> only sets the timer.
\<close>

definition gradeCard ::
  "settings \<Rightarrow> card list \<Rightarrow> int \<Rightarrow> num \<Rightarrow> string \<Rightarrow> num \<Rightarrow> app \<Rightarrow> app" where
  "gradeCard st catalog grade now today now' s =
     (case currentCard s of
        None \<Rightarrow> s
      | Some c \<Rightarrow>
          pickNextCard
            (buildQueues st catalog now'
               (s\<lparr>progress :=
                     grade_update st (word c) (currentKind s) grade now today (progress s),
                   savePending := True,
                   history :=
                     take 12
                       (\<lparr>hword = word c, hmode = mode s, hgrade = grade, timestamp = now\<rparr>
                        # history s),
                   currentCard := None,
                   currentKind := None,
                   showingAnswer := False\<rparr>)))"

section \<open>The local cache\<close>

definition STORAGE_KEY :: string where
  "STORAGE_KEY = ''oxford3000-progress-v1''"

definition isSignedIn :: "app \<Rightarrow> bool" where
  "isSignedIn s = (case currentUser s of None \<Rightarrow> False | Some u \<Rightarrow> u \<noteq> [])"

definition hasAuthToken :: "app \<Rightarrow> bool" where
  "hasAuthToken s = (case currentIdToken s of None \<Rightarrow> False | Some t \<Rightarrow> t \<noteq> [])"

definition getProgressStorageKey :: "app \<Rightarrow> string" where
  "getProgressStorageKey s =
     (case currentUser s of
        None \<Rightarrow> STORAGE_KEY
      | Some u \<Rightarrow> if u \<noteq> [] then STORAGE_KEY @ ''::'' @ u else STORAGE_KEY)"

definition createEmptyProgress :: "string \<Rightarrow> snapshot" where
  "createEmptyProgress today =
     \<lparr>cards = Map.empty,
      meta = \<lparr>lastReviewDay = today, reviewsToday = 0, newToday = 0\<rparr>\<rparr>"

text \<open>A well-formed snapshot seen as a stored one, as after a trip through JSON.\<close>

definition to_raw :: "snapshot \<Rightarrow> raw_snapshot" where
  "to_raw p = \<lparr>raw_cards = Some (cards p), raw_meta = Some (meta p)\<rparr>"

definition loadProgressFromLocalStorage :: "app \<Rightarrow> raw_snapshot option" where
  "loadProgressFromLocalStorage s =
     (case localStorage s (getProgressStorageKey s) of
        None \<Rightarrow> None
      | Some Unparsable \<Rightarrow> None
      | Some (Json r) \<Rightarrow> if raw_cards r \<noteq> None \<and> raw_meta r \<noteq> None then Some r else None)"

text \<open>
  \<^verbatim>\<open>saveProgressToLocalStorage\<close> writes the global \<^verbatim>\<open>progress\<close>. Inside
  \<^verbatim>\<open>loadProgress\<close> that global holds a snapshot not yet repaired, so the write takes the
  value as an argument; outside it is the snapshot of the state.
\<close>

definition write_local :: "raw_snapshot \<Rightarrow> app \<Rightarrow> app" where
  "write_local r s = s\<lparr>localStorage := (localStorage s)(getProgressStorageKey s \<mapsto> Json r)\<rparr>"

definition saveProgressToLocalStorage :: "app \<Rightarrow> app" where
  "saveProgressToLocalStorage s = write_local (to_raw (progress s)) s"

definition ensureProgressForToday :: "string \<Rightarrow> raw_snapshot \<Rightarrow> snapshot" where
  "ensureProgressForToday today r =
     \<lparr>cards = (case raw_cards r of None \<Rightarrow> Map.empty | Some cs \<Rightarrow> cs),
      meta =
        rollover today
          (case raw_meta r of
             None \<Rightarrow> \<lparr>lastReviewDay = today, reviewsToday = 0, newToday = 0\<rparr>
           | Some m \<Rightarrow> m)\<rparr>"

text \<open>\<^verbatim>\<open>fallback?.cards ? fallback : createEmptyProgress()\<close>.\<close>

definition adopt :: "string \<Rightarrow> raw_snapshot option \<Rightarrow> raw_snapshot" where
  "adopt today fallback =
     (case fallback of
        None \<Rightarrow> to_raw (createEmptyProgress today)
      | Some r \<Rightarrow> if raw_cards r \<noteq> None then r else to_raw (createEmptyProgress today))"

text \<open>
  \<^verbatim>\<open>storedProgress || fallbackProgress\<close>, where \<^verbatim>\<open>fallbackProgress\<close> is the copy of the
  snapshot that was in memory when \<^verbatim>\<open>loadProgress\<close> began.
\<close>

definition stored_or_previous :: "app \<Rightarrow> raw_snapshot" where
  "stored_or_previous s =
     (case loadProgressFromLocalStorage s of Some r \<Rightarrow> r | None \<Rightarrow> to_raw (progress s))"

text \<open>
  The fetched snapshot when \<^verbatim>\<open>data?.progress?.cards && data?.progress?.meta\<close> holds,
  and \<open>x\<close> otherwise.
\<close>

definition complete_or :: "raw_snapshot option \<Rightarrow> raw_snapshot \<Rightarrow> raw_snapshot" where
  "complete_or d x =
     (case d of
        None \<Rightarrow> x
      | Some r \<Rightarrow> if raw_cards r \<noteq> None \<and> raw_meta r \<noteq> None then r else x)"

section \<open>Load and save against the document store (\<^verbatim>\<open>src/scripts/app.js\<close>)\<close>

definition showAuthMessage_cloud :: "notice \<Rightarrow> app \<Rightarrow> app" where
  "showAuthMessage_cloud n s = s\<lparr>keepAuthMessage := (n \<noteq> NoNotice), authMessage := n\<rparr>"

text \<open>What \<^verbatim>\<open>getDoc\<close> gives: it throws, the document is absent, or it has data.\<close>

datatype cloud_doc =
    GetFailed js_error
  | NoDocument
  | Document "raw_snapshot option" "history_entry list option"

text \<open>
  The branches of \<^verbatim>\<open>loadProgress\<close>: the snapshot left in \<^verbatim>\<open>progress\<close>, the history
  left in \<^verbatim>\<open>state.history\<close>, and the rest of the state, just before the repair by
  \<^verbatim>\<open>ensureProgressForToday\<close>.
\<close>

definition load_choice_cloud ::
  "string \<Rightarrow> cloud_doc \<Rightarrow> app \<Rightarrow> raw_snapshot \<times> history_entry list \<times> app" where
  "load_choice_cloud today res s =
     (if isSignedIn s then
        (case res of
           Document d h \<Rightarrow>
             (let raw = complete_or d (adopt today (Some (stored_or_previous s)))
              in (raw,
                  (case h of Some xs \<Rightarrow> take 100 xs | None \<Rightarrow> []),
                  showAuthMessage_cloud NoNotice (write_local raw s)))
         | NoDocument \<Rightarrow>
             (adopt today (Some (stored_or_previous s)), history s,
              showAuthMessage_cloud NoCloudData s)
         | GetFailed e \<Rightarrow>
             (adopt today (Some (stored_or_previous s)), history s,
              (if isSignedIn s then showAuthMessage_cloud CloudLoadFailed s
               else if \<not> keepAuthMessage s then showAuthMessage_cloud NoNotice s
               else s)))
      else
        (adopt today (loadProgressFromLocalStorage s), history s,
         (if \<not> keepAuthMessage s then showAuthMessage_cloud NoNotice s else s)))"

definition loadProgress_cloud :: "string \<Rightarrow> cloud_doc \<Rightarrow> app \<Rightarrow> app" where
  "loadProgress_cloud today res s =
     (case load_choice_cloud today res s of (raw, hist, s') \<Rightarrow>
        s'\<lparr>progress := ensureProgressForToday today raw, history := take 12 hist\<rparr>)"

text \<open>
  \<^verbatim>\<open>persistProgress\<close> returns the thrown error, if any, beside the state it leaves.
\<close>

datatype write_result = WriteOk | WriteFailed js_error

definition persistProgress_cloud :: "write_result \<Rightarrow> app \<Rightarrow> js_error option \<times> app" where
  "persistProgress_cloud res s =
     (if isSignedIn s then
        (case res of
           WriteOk \<Rightarrow> (None, showAuthMessage_cloud NoNotice (saveProgressToLocalStorage s))
         | WriteFailed e \<Rightarrow>
             (Some e,
              (let s' = saveProgressToLocalStorage s
               in if isSignedIn s' then showAuthMessage_cloud CloudSyncFailed s' else s')))
      else (None, saveProgressToLocalStorage s))"

section \<open>Load and save against the REST server (\<^verbatim>\<open>src/unnamed/part_000\<close>)\<close>

definition showAuthMessage_rest :: "notice \<Rightarrow> app \<Rightarrow> app" where
  "showAuthMessage_rest n s = s\<lparr>authMessage := n\<rparr>"

text \<open>\<^verbatim>\<open>response.ok\<close>.\<close>

definition response_ok :: "nat \<Rightarrow> bool" where
  "response_ok n = (200 \<le> n \<and> n \<le> 299)"

text \<open>
  What \<^verbatim>\<open>fetch\<close> gives on the load: it rejects, or there is a response with a status
  and a body, which \<^verbatim>\<open>response.json()\<close> may reject.
\<close>

datatype rest_body = BadJson js_error | Payload "raw_snapshot option" "history_entry list option"

datatype fetch_result = Rejected js_error | Response nat rest_body

text \<open>The handler of the \<^verbatim>\<open>catch\<close> block of the load.\<close>

definition load_failed_rest :: "string \<Rightarrow> app \<Rightarrow> app \<Rightarrow> raw_snapshot \<times> history_entry list \<times> app" where
  "load_failed_rest today s0 s =
     (if isSignedIn s \<and> \<not> hasAuthToken s
      then (adopt today (Some (stored_or_previous s0)), history s0,
            (showAuthMessage_rest SessionExpired s)\<lparr>reauthPrompted := True\<rparr>)
      else (adopt today (Some (stored_or_previous s0)), history s0,
            showAuthMessage_rest ServerLoadFailed s))"

definition load_choice_rest ::
  "string \<Rightarrow> fetch_result \<Rightarrow> app \<Rightarrow> raw_snapshot \<times> history_entry list \<times> app" where
  "load_choice_rest today res s =
     (if isSignedIn s \<and> hasAuthToken s then
        (case res of
           Rejected e \<Rightarrow> load_failed_rest today s s
         | Response status body \<Rightarrow>
             if status = 401 then load_failed_rest today s (s\<lparr>currentIdToken := None\<rparr>)
             else if response_ok status then
               (case body of
                  BadJson e \<Rightarrow> load_failed_rest today s s
                | Payload d h \<Rightarrow>
                    (let raw = complete_or d (to_raw (createEmptyProgress today))
                     in (raw,
                         (case h of Some xs \<Rightarrow> take 100 xs | None \<Rightarrow> []),
                         showAuthMessage_rest NoNotice (write_local raw s))))
             else if status = 404 then
               (adopt today (Some (stored_or_previous s)), history s,
                showAuthMessage_rest SyncServerUnavailable s)
             else load_failed_rest today s s)
      else if isSignedIn s then
        (adopt today (Some (stored_or_previous s)), history s,
         showAuthMessage_rest AwaitingGoogle s)
      else
        (adopt today (loadProgressFromLocalStorage s), [], showAuthMessage_rest NoNotice s))"

definition loadProgress_rest :: "string \<Rightarrow> fetch_result \<Rightarrow> app \<Rightarrow> app" where
  "loadProgress_rest today res s =
     (case load_choice_rest today res s of (raw, hist, s') \<Rightarrow>
        s'\<lparr>progress := ensureProgressForToday today raw, history := take 12 hist\<rparr>)"

text \<open>What \<^verbatim>\<open>fetch\<close> gives on the save: it rejects, or there is a status.\<close>

datatype post_result = PostRejected js_error | PostStatus nat

text \<open>The handler of the \<^verbatim>\<open>catch\<close> block of the save.\<close>

definition save_failed_rest :: "js_error \<Rightarrow> app \<Rightarrow> js_error option \<times> app" where
  "save_failed_rest e s =
     (Some e,
      (if not_unauthorized e
       then showAuthMessage_rest ServerSyncFailed (saveProgressToLocalStorage s)
       else s))"

definition persistProgress_rest :: "post_result \<Rightarrow> app \<Rightarrow> js_error option \<times> app" where
  "persistProgress_rest res s =
     (if isSignedIn s then
        (if \<not> hasAuthToken s
         then (None, showAuthMessage_rest SignInToSync (saveProgressToLocalStorage s))
         else
           (case res of
              PostRejected e \<Rightarrow> save_failed_rest e s
            | PostStatus n \<Rightarrow>
                if n = 401 then
                  save_failed_rest (Error ''Unauthorized'')
                    (showAuthMessage_rest SessionExpired
                       (saveProgressToLocalStorage (s\<lparr>currentIdToken := None\<rparr>)))
                else if n = 404 then
                  (None, showAuthMessage_rest SyncServerUnavailable (saveProgressToLocalStorage s))
                else if \<not> response_ok n then save_failed_rest (StatusError n) s
                else (None, showAuthMessage_rest NoNotice (saveProgressToLocalStorage s))))
      else (None, saveProgressToLocalStorage s))"

section \<open>The server's sanitizer (tail of \<^verbatim>\<open>src/scripts/app.js\<close>)\<close>

text \<open>
  The sanitizer receives whatever the request body holds, so its argument is a value of
  the language: here numbers include \<^verbatim>\<open>NaN\<close> and the two infinities. An object is the
  list of its own properties in the order of \<^verbatim>\<open>Object.entries\<close>.
\<close>

datatype jsnum = Fin rat | NaN | PosInf | NegInf

datatype jsval =
    JUndefined
  | JNull
  | JBool bool
  | JNum jsnum
  | JStr string
  | JArr "jsval list"
  | JObj "(string \<times> jsval) list"

definition js_truthy :: "jsval \<Rightarrow> bool" where
  "js_truthy v =
     (case v of
        JUndefined \<Rightarrow> False
      | JNull \<Rightarrow> False
      | JBool b \<Rightarrow> b
      | JNum n \<Rightarrow> (case n of Fin r \<Rightarrow> r \<noteq> 0 | NaN \<Rightarrow> False | _ \<Rightarrow> True)
      | JStr t \<Rightarrow> t \<noteq> []
      | _ \<Rightarrow> True)"

text \<open>\<^verbatim>\<open>typeof v === 'object'\<close>, which \<^verbatim>\<open>null\<close> satisfies.\<close>

definition typeof_object :: "jsval \<Rightarrow> bool" where
  "typeof_object v = (case v of JNull \<Rightarrow> True | JArr xs \<Rightarrow> True | JObj kvs \<Rightarrow> True | _ \<Rightarrow> False)"

text \<open>
  A property read \<^verbatim>\<open>v.k\<close>, for the property names of the sanitizer, none of which is a
  property of a string, a number, a boolean or an array: the read throws on
  \<^verbatim>\<open>null\<close> and \<^verbatim>\<open>undefined\<close> and gives \<^verbatim>\<open>undefined\<close> on anything but an object
  that has the property.
\<close>

definition get_prop :: "jsval \<Rightarrow> string \<Rightarrow> js_error + jsval" where
  "get_prop v k =
     (case v of
        JUndefined \<Rightarrow> Inl TypeError
      | JNull \<Rightarrow> Inl TypeError
      | JObj kvs \<Rightarrow> Inr (case map_of kvs k of Some x \<Rightarrow> x | None \<Rightarrow> JUndefined)
      | _ \<Rightarrow> Inr JUndefined)"

text \<open>The same read where the code has already tested that \<open>v\<close> is a truthy object.\<close>

definition prop_of :: "jsval \<Rightarrow> string \<Rightarrow> jsval" where
  "prop_of v k = (case get_prop v k of Inl e \<Rightarrow> JUndefined | Inr x \<Rightarrow> x)"

text \<open>
  \<^verbatim>\<open>Number(v)\<close>. The conversion of a string, an array or an object goes through the
  text of the value; it is the parameter \<open>conv\<close>, so that what is proved holds for
  whatever that conversion gives.
\<close>

definition Number :: "(jsval \<Rightarrow> jsnum) \<Rightarrow> jsval \<Rightarrow> jsnum" where
  "Number conv v =
     (case v of
        JUndefined \<Rightarrow> NaN
      | JNull \<Rightarrow> Fin 0
      | JBool b \<Rightarrow> Fin (if b then 1 else 0)
      | JNum n \<Rightarrow> n
      | _ \<Rightarrow> conv v)"

definition isFinite :: "jsnum \<Rightarrow> bool" where
  "isFinite n = (case n of Fin r \<Rightarrow> True | _ \<Rightarrow> False)"

definition sanitizeNumber :: "(jsval \<Rightarrow> jsnum) \<Rightarrow> jsval \<Rightarrow> jsnum \<Rightarrow> jsnum" where
  "sanitizeNumber conv v fallback =
     (let number = Number conv v in if isFinite number then number else fallback)"

text \<open>\<^verbatim>\<open>Math.max(0, n)\<close>.\<close>

definition max0 :: "jsnum \<Rightarrow> jsnum" where
  "max0 n =
     (case n of Fin r \<Rightarrow> Fin (max 0 r) | NaN \<Rightarrow> NaN | PosInf \<Rightarrow> PosInf | NegInf \<Rightarrow> Fin 0)"

record sanitized_entry =
  s_ease :: jsnum
  s_interval :: jsnum
  s_repetitions :: jsnum
  s_due :: jsnum
  s_lastReview :: "jsnum option"
  s_totalReviews :: jsnum
  s_lapses :: jsnum
  s_seen :: bool

record sanitized_meta =
  s_lastReviewDay :: string
  s_reviewsToday :: jsnum
  s_newToday :: jsnum

record sanitized =
  s_cards :: "string \<rightharpoonup> sanitized_entry"
  s_meta :: sanitized_meta

text \<open>The object literal built for one card; \<open>None\<close> in \<open>s_lastReview\<close> is \<^verbatim>\<open>null\<close>.\<close>

definition sanitize_entry :: "(jsval \<Rightarrow> jsnum) \<Rightarrow> jsval \<Rightarrow> sanitized_entry" where
  "sanitize_entry conv e =
     \<lparr>s_ease = sanitizeNumber conv (prop_of e ''ease'') (Fin (5 / 2)),
      s_interval = max0 (sanitizeNumber conv (prop_of e ''interval'') (Fin 0)),
      s_repetitions = max0 (sanitizeNumber conv (prop_of e ''repetitions'') (Fin 0)),
      s_due = max0 (sanitizeNumber conv (prop_of e ''due'') (Fin 0)),
      s_lastReview =
        (let lr = prop_of e ''lastReview''
         in if lr = JUndefined \<or> lr = JNull then None
            else if isFinite (Number conv lr) then Some (Number conv lr) else None),
      s_totalReviews = max0 (sanitizeNumber conv (prop_of e ''totalReviews'') (Fin 0)),
      s_lapses = max0 (sanitizeNumber conv (prop_of e ''lapses'') (Fin 0)),
      s_seen = js_truthy (prop_of e ''seen'')\<rparr>"

text \<open>The decimal text of an array index, the key under which \<^verbatim>\<open>Object.entries\<close> lists it.\<close>

fun show_nat :: "nat \<Rightarrow> string" where
  "show_nat n =
     (if n < 10 then [char_of (48 + n)] else show_nat (n div 10) @ [char_of (48 + n mod 10)])"

definition entries :: "jsval \<Rightarrow> (string \<times> jsval) list" where
  "entries v =
     (case v of
        JObj kvs \<Rightarrow> kvs
      | JArr xs \<Rightarrow> zip (map show_nat [0 ..< length xs]) xs
      | _ \<Rightarrow> [])"

text \<open>The loop over \<^verbatim>\<open>Object.entries(progress.cards)\<close>, filling \<^verbatim>\<open>sanitizedCards\<close>.\<close>

fun sanitize_cards ::
  "(jsval \<Rightarrow> jsnum) \<Rightarrow> (string \<times> jsval) list \<Rightarrow> (string \<rightharpoonup> sanitized_entry) \<Rightarrow> (string \<rightharpoonup> sanitized_entry)" where
  "sanitize_cards conv [] acc = acc"
| "sanitize_cards conv ((w, e) # rest) acc =
     (if \<not> js_truthy e \<or> \<not> typeof_object e then sanitize_cards conv rest acc
      else sanitize_cards conv rest (acc(w \<mapsto> sanitize_entry conv e)))"

text \<open>
  \<^verbatim>\<open>sanitizeProgress(progress = {})\<close>: the default stands in for \<^verbatim>\<open>undefined\<close> only.
  \<open>today\<close> is the day key that replaces a \<^verbatim>\<open>lastReviewDay\<close> that is not a string.
\<close>

definition sanitizeProgress :: "(jsval \<Rightarrow> jsnum) \<Rightarrow> string \<Rightarrow> jsval \<Rightarrow> js_error + sanitized" where
  "sanitizeProgress conv today arg =
     (let progress' = (if arg = JUndefined then JObj [] else arg)
      in case get_prop progress' ''meta'' of
           Inl err \<Rightarrow> Inl err
         | Inr pm \<Rightarrow>
             (let meta' = (if js_truthy pm \<and> typeof_object pm then pm else JObj []);
                  sanitizedMeta =
                    \<lparr>s_lastReviewDay =
                       (case prop_of meta' ''lastReviewDay'' of JStr d \<Rightarrow> d | _ \<Rightarrow> today),
                     s_reviewsToday = sanitizeNumber conv (prop_of meta' ''reviewsToday'') (Fin 0),
                     s_newToday = sanitizeNumber conv (prop_of meta' ''newToday'') (Fin 0)\<rparr>;
                  pc = prop_of progress' ''cards''
              in Inr \<lparr>s_cards =
                        (if js_truthy pc \<and> typeof_object pc
                         then sanitize_cards conv (entries pc) Map.empty
                         else Map.empty),
                      s_meta = sanitizedMeta\<rparr>))"
section \<open>The grade update in double arithmetic\<close>

text \<open>
  The functions of the grade update above take the arithmetic of the code exactly. The
  code computes in doubles: a literal stands for the double nearest to it, and an
  operation gives the double nearest to its exact result, so that 2.3 - 0.2 is
  2.0999999999999996 and not 2.1. Below is the same code with that rounding written
  out. \<open>fl\<close> is the map from a number to the nearest double; it is a parameter, and what
  is proved holds for every such map. It is applied to the literals 1.3, 0.2, 0.15 and
  1.2, which are not doubles, and to every sum and product in which the ease or a
  literal with a fraction takes part. The literal 2.5 is a double. Counters, intervals,
  clock readings and the two settings are whole numbers far below \<open>2 ^ 53\<close>, on which
  the sums and products of the code are exact; there \<open>fl\<close> is left out. With the
  identity for \<open>fl\<close> these are the exact functions.
\<close>

definition hard_step_fl :: "(num \<Rightarrow> num) \<Rightarrow> num \<Rightarrow> entry \<Rightarrow> entry" where
  "hard_step_fl fl es e =
     e\<lparr>ease := Some (max (fl (13 / 10)) (fl (es - fl (3 / 20)))),
       interval :=
         (if interval e \<noteq> 0 then max 1 (Math_round (fl (interval e * fl (6 / 5)))) else 1)\<rparr>"

definition good_step_fl :: "(num \<Rightarrow> num) \<Rightarrow> num \<Rightarrow> entry \<Rightarrow> entry" where
  "good_step_fl fl es e =
     e\<lparr>interval :=
         (if repetitions e = 0 then 1
          else if repetitions e = 1 then 6
          else max 1 (Math_round (fl (interval e * es)))),
       repetitions := repetitions e + 1\<rparr>"

definition easy_step_fl :: "(num \<Rightarrow> num) \<Rightarrow> num \<Rightarrow> entry \<Rightarrow> entry" where
  "easy_step_fl fl es e =
     (let es' = fl (es + fl (3 / 20))
      in e\<lparr>ease := Some es',
           interval :=
             (if repetitions e = 0 then 4
              else if repetitions e = 1 then Math_round (fl (interval e * (5 / 2)))
              else max 1 (Math_round (fl (fl (interval e * es') * fl (13 / 10))))),
           repetitions := repetitions e + 1\<rparr>)"

definition reschedule_fl :: "(num \<Rightarrow> num) \<Rightarrow> settings \<Rightarrow> int \<Rightarrow> num \<Rightarrow> entry \<Rightarrow> entry" where
  "reschedule_fl fl st grade now e =
     (if grade = 0
      then e\<lparr>repetitions := 0,
             interval := 0,
             ease := Some (max (fl (13 / 10)) (fl (or_default (ease e) (5 / 2) - fl (1 / 5)))),
             due := Some (now + lapseMinutes st * 60 * 1000),
             lapses := Some (or_default (lapses e) 0 + 1)\<rparr>
      else
        let es = or_default (ease e) (5 / 2);
            e1 = e\<lparr>ease := Some es\<rparr>;
            e2 = (if grade = 1 then hard_step_fl fl es e1
                  else if grade = 2 then good_step_fl fl es e1
                  else if grade = 3 then easy_step_fl fl es e1
                  else e1)
        in e2\<lparr>due := Some (now + (if interval e2 \<noteq> 0 then interval e2 else 1) * 86400000)\<rparr>)"

definition grade_entry_fl ::
  "(num \<Rightarrow> num) \<Rightarrow> settings \<Rightarrow> kind option \<Rightarrow> int \<Rightarrow> num \<Rightarrow> string \<Rightarrow>
   daily_meta \<times> entry \<Rightarrow> daily_meta \<times> entry" where
  "grade_entry_fl fl st k grade now today me =
     (case count_new st k (rollover today (fst me), snd me) of (m, e) \<Rightarrow>
        (m\<lparr>reviewsToday := reviewsToday m + 1\<rparr>,
         (reschedule_fl fl st grade now (e\<lparr>totalReviews := totalReviews e + 1\<rparr>))
           \<lparr>lastReview := Some now\<rparr>))"

text \<open>
  The nearest double itself, for numbers inside the range of the normal doubles: the
  exponent of the number, the spacing of the doubles there, and the nearest multiple of
  the spacing, a tie going to the even one. \<open>log2_floor\<close> looks for the exponent in at
  most as many steps as its first argument says.
\<close>

fun log2_floor :: "nat \<Rightarrow> rat \<Rightarrow> int" where
  "log2_floor 0 x = 0"
| "log2_floor (Suc n) x =
     (if 2 \<le> x then log2_floor n (x / 2) + 1
      else if x < 1 then log2_floor n (x * 2) - 1
      else 0)"

definition round_even :: "rat \<Rightarrow> int" where
  "round_even x =
     (let f = \<lfloor>x\<rfloor>; r = x - of_int f
      in if r < 1 / 2 then f else if 1 / 2 < r then f + 1 else if even f then f else f + 1)"

definition to_double :: "rat \<Rightarrow> rat" where
  "to_double x =
     (if x = 0 then 0
      else let s = power_int 2 (log2_floor 1100 \<bar>x\<bar> - 52)
           in of_int (round_even (x / s)) * s)"

section \<open>Predicates of the statements and concrete inputs\<close>

text \<open>The invariant of the data model on the ease of a record: set, and at least 1.3.\<close>

definition ease_ok :: "entry \<Rightarrow> bool" where
  "ease_ok e = (case ease e of None \<Rightarrow> False | Some x \<Rightarrow> 13 / 10 \<le> x)"

text \<open>
  The record of the scenario for the card "hello": one repetition, an interval of six
  days, ease 2.5, due one second before \<open>now\<close>.
\<close>

definition scenario_entry :: "num \<Rightarrow> entry" where
  "scenario_entry now =
     \<lparr>ease = Some (5 / 2), interval = 6, repetitions = 1, due = Some (now - 1000),
      lastReview = None, totalReviews = 1, lapses = Some 0, seen = True\<rparr>"

definition day_meta :: daily_meta where
  "day_meta = \<lparr>lastReviewDay = ''2024-03-01'', reviewsToday = 3, newToday = 2\<rparr>"

text \<open>A record with one repetition and an interval of zero days.\<close>

definition zero_interval_entry :: entry where
  "zero_interval_entry =
     \<lparr>ease = Some (5 / 2), interval = 0, repetitions = 1, due = Some 1709200000000,
      lastReview = Some 1709100000000, totalReviews = 1, lapses = Some 0, seen = True\<rparr>"

text \<open>A record whose ease sits on the floor, and a run of Again and Hard grades.\<close>

definition floor_entry :: entry where
  "floor_entry =
     \<lparr>ease = Some (13 / 10), interval = 3, repetitions = 2, due = Some 1709200000000,
      lastReview = Some 1709100000000, totalReviews = 4, lapses = Some 1, seen = True\<rparr>"

definition lapse_run :: "(kind option \<times> int \<times> num \<times> string) list" where
  "lapse_run =
     [(Some Review, 0, 1709300000000, ''2024-03-01''),
      (Some Review, 1, 1709300900000, ''2024-03-01''),
      (Some Review, 0, 1709387400000, ''2024-03-02''),
      (Some Review, 1, 1709388300000, ''2024-03-02'')]"

text \<open>A quota of one new word a day, and new cards graded on two days.\<close>

definition tight_settings :: settings where
  "tight_settings = \<lparr>dailyNewLimit = 1, lapseMinutes = 10\<rparr>"

definition quota_run :: "grade_event list" where
  "quota_run =
     [\<lparr>ev_word = ''hello'', ev_kind = Some New, ev_grade = 2,
       ev_now = 1709300000000, ev_today = ''2024-03-01''\<rparr>,
      \<lparr>ev_word = ''world'', ev_kind = Some New, ev_grade = 3,
       ev_now = 1709300060000, ev_today = ''2024-03-01''\<rparr>,
      \<lparr>ev_word = ''hello'', ev_kind = Some Review, ev_grade = 0,
       ev_now = 1709386500000, ev_today = ''2024-03-02''\<rparr>,
      \<lparr>ev_word = ''again'', ev_kind = Some New, ev_grade = 1,
       ev_now = 1709386560000, ev_today = ''2024-03-02''\<rparr>,
      \<lparr>ev_word = ''other'', ev_kind = Some New, ev_grade = 2,
       ev_now = 1709386620000, ev_today = ''2024-03-02''\<rparr>]"

text \<open>
  The state with which both variants start, before anything is loaded: the literal of
  \<^verbatim>\<open>state\<close> and the initial values of the other globals.
\<close>

definition initial_app :: "string \<Rightarrow> app" where
  "initial_app today =
     \<lparr>progress = createEmptyProgress today, history = [], reviewQueue = [], newQueue = [],
      filteredCards = [], currentCard = None, currentKind = None, showingAnswer = False,
      mode = ''en-ru'', level_filter = ''all'', savePending = False, currentUser = None,
      currentIdToken = None, localStorage = Map.empty, authMessage = NoNotice,
      keepAuthMessage = False, reauthPrompted = False\<rparr>"

text \<open>
  A catalogue of five cards, four of level A1 (one tagged in lower case) and one of
  level B2, and a snapshot in which "house" has a due time of 0, "river" was due a
  second ago, "stone" is due in a week and "hello" has no record.
\<close>

definition hello :: card where
  "hello = \<lparr>word = ''hello'', translation = ''privet'', level = Some ''A1''\<rparr>"

definition house :: card where
  "house = \<lparr>word = ''house'', translation = ''dom'', level = Some ''a1''\<rparr>"

definition river :: card where
  "river = \<lparr>word = ''river'', translation = ''reka'', level = Some ''A1''\<rparr>"

definition stone :: card where
  "stone = \<lparr>word = ''stone'', translation = ''kamen'', level = Some ''A1''\<rparr>"

definition cloud :: card where
  "cloud = \<lparr>word = ''cloud'', translation = ''oblako'', level = Some ''B2''\<rparr>"

definition small_catalog :: "card list" where
  "small_catalog = [hello, house, river, cloud, stone]"

definition studied :: snapshot where
  "studied =
     \<lparr>cards =
        [''house'' \<mapsto> (scenario_entry 1709300000000)\<lparr>due := Some 0\<rparr>,
         ''river'' \<mapsto> scenario_entry 1709300000000,
         ''stone'' \<mapsto> (scenario_entry 1709300000000)\<lparr>due := Some 1709900000000\<rparr>],
      meta = day_meta\<rparr>"

definition session :: app where
  "session = (initial_app ''2024-03-01'')\<lparr>progress := studied, level_filter := ''A1''\<rparr>"

text \<open>
  The same session for a learner who is signed in and holds a token, with an empty local
  cache, and with a local cache that holds an empty snapshot of an earlier day.
\<close>

definition signed_in :: app where
  "signed_in = session\<lparr>currentUser := Some ''learner-1'', currentIdToken := Some ''token''\<rparr>"

definition cached :: app where
  "cached =
     signed_in\<lparr>localStorage :=
       [''oxford3000-progress-v1::learner-1'' \<mapsto> Json (to_raw (createEmptyProgress ''2024-02-27''))]\<rparr>"

text \<open>
  What the sanitizer promises of a number: finite and not negative; and of an entry.
\<close>

definition nonneg_fin :: "jsnum \<Rightarrow> bool" where
  "nonneg_fin n = (case n of Fin r \<Rightarrow> 0 \<le> r | _ \<Rightarrow> False)"

definition entry_sane :: "sanitized_entry \<Rightarrow> bool" where
  "entry_sane e =
     (nonneg_fin (s_interval e) \<and> nonneg_fin (s_repetitions e) \<and> nonneg_fin (s_due e) \<and>
      nonneg_fin (s_totalReviews e) \<and> nonneg_fin (s_lapses e) \<and> isFinite (s_ease e) \<and>
      (case s_lastReview e of None \<Rightarrow> True | Some n \<Rightarrow> isFinite n))"

text \<open>
  A request body without strings among its numbers, so that the conversion of strings
  plays no part, and a conversion for it.
\<close>

definition no_strings :: "jsval \<Rightarrow> jsnum" where
  "no_strings v = NaN"

definition posted :: jsval where
  "posted =
     JObj [(''cards'',
            JObj [(''hello'',
                   JObj [(''ease'', JNum (Fin 1)), (''interval'', JNum (Fin (- 3))),
                         (''due'', JNum PosInf), (''lastReview'', JNull),
                         (''seen'', JNum (Fin 1))]),
                  (''junk'', JNum (Fin 7))]),
           (''meta'', JNull)]"

text \<open>
  A record whose ease is the double 2.3, that is 5179139571476070 / 2^51, and a record
  whose ease is unset.
\<close>

definition double_ease_entry :: entry where
  "double_ease_entry =
     \<lparr>ease = Some (5179139571476070 / 2251799813685248), interval = 15, repetitions = 3,
      due = Some 1709200000000, lastReview = Some 1707900000000, totalReviews = 5,
      lapses = Some 0, seen = True\<rparr>"

definition unset_ease_entry :: entry where
  "unset_ease_entry =
     \<lparr>ease = None, interval = 15, repetitions = 3, due = Some 1709200000000,
      lastReview = Some 1707900000000, totalReviews = 5, lapses = None, seen = True\<rparr>"

section \<open>The interval algorithm\<close>

text \<open>The floor of a quotient of numerals, for evaluating \<open>Math_round\<close> on rationals.\<close>

lemma floor_rat_numeral_div [simp]:
  "\<lfloor>numeral a / numeral b :: rat\<rfloor> = numeral a div numeral b"
  by (metis floor_divide_of_int_eq of_int_numeral)

lemma floor_rat_one_div [simp]: "\<lfloor>1 / numeral b :: rat\<rfloor> = 1 div numeral b"
  by (metis floor_divide_of_int_eq of_int_1 of_int_numeral)

lemmas grade_defs =
  grade_entry_def count_new_def rollover_def reschedule_def hard_step_def good_step_def
  easy_step_def or_default_def Math_round_def

subsection \<open>Good at one repetition\<close>

text \<open>
  C1, as stated: from repetitions 1, interval 6, ease 2.5 and a due time in the past, the
  grade Good gives the interval round(6 * 2.5) = 15. On the scenario's record the
  interval after Good is not 15: the claim fails.
\<close>

theorem C1_counterexample:
  "interval (snd (grade_entry DEFAULT_SETTINGS (Some Review) 2 1709300000000 ''2024-03-01''
      (day_meta, scenario_entry 1709300000000))) \<noteq> 15"
  by (simp add: grade_defs DEFAULT_SETTINGS_def day_meta_def scenario_entry_def)

text \<open>
  C1, amended: a record with repetitions 1, interval 6, ease 2.5 and due at now - 1000,
  whatever its other fields, the daily counters, the settings and the kind of the card,
  graded Good at time \<open>now\<close>, gets the interval 6 (the fixed interval of the second
  successful repetition; the product of interval and ease is used from repetitions 2
  on), repetitions 2 and due = now + 6 * 86400000.
\<close>

theorem C1_good_at_one_repetition:
  "interval (snd (grade_entry st k 2 now today
      (m, e\<lparr>repetitions := 1, interval := 6, ease := Some (5 / 2), due := Some (now - 1000)\<rparr>))) = 6 \<and>
   repetitions (snd (grade_entry st k 2 now today
      (m, e\<lparr>repetitions := 1, interval := 6, ease := Some (5 / 2), due := Some (now - 1000)\<rparr>))) = 2 \<and>
   due (snd (grade_entry st k 2 now today
      (m, e\<lparr>repetitions := 1, interval := 6, ease := Some (5 / 2), due := Some (now - 1000)\<rparr>)))
     = Some (now + 6 * 86400000)"
  by (simp add: grade_entry_def count_new_def reschedule_def good_step_def or_default_def)

theorem C1_witness:
  "interval (snd (grade_entry DEFAULT_SETTINGS (Some Review) 2 1709300000000 ''2024-03-01''
      (day_meta, scenario_entry 1709300000000))) = 6 \<and>
   repetitions (snd (grade_entry DEFAULT_SETTINGS (Some Review) 2 1709300000000 ''2024-03-01''
      (day_meta, scenario_entry 1709300000000))) = 2 \<and>
   due (snd (grade_entry DEFAULT_SETTINGS (Some Review) 2 1709300000000 ''2024-03-01''
      (day_meta, scenario_entry 1709300000000))) = Some 1709818400000"
  using C1_good_at_one_repetition
    [of DEFAULT_SETTINGS "Some Review" 1709300000000 "''2024-03-01''" day_meta
        "scenario_entry 1709300000000"]
  by (simp add: scenario_entry_def)

subsection \<open>The floor of the interval\<close>

text \<open>
  Hard, Good, and Easy outside its branch for one repetition, give an interval of at
  least one day.
\<close>

lemma interval_floor_other_branches:
  "grade \<in> {1, 2, 3} \<Longrightarrow> \<not> (grade = 3 \<and> repetitions e = 1) \<Longrightarrow>
   1 \<le> interval (snd (grade_entry st k grade now today (m, e)))"
  by (auto simp add: grade_entry_def count_new_def reschedule_def hard_step_def
      good_step_def easy_step_def Let_def)

text \<open>
  C2: every grade other than Again gives an interval of at least 1, in particular Easy
  at one repetition. The code at a record with one repetition and the interval 0, graded
  Easy: the interval stays round(0 * 2.5) = 0, since that branch alone has no
  \<^verbatim>\<open>Math.max(1, ...)\<close>.
\<close>

theorem C2_easy_leaves_interval_zero:
  "interval (snd (grade_entry DEFAULT_SETTINGS (Some Review) 3 1709300000000 ''2024-03-01''
      (day_meta, zero_interval_entry))) = 0"
  by (simp add: grade_defs DEFAULT_SETTINGS_def day_meta_def zero_interval_entry_def)

subsection \<open>Again\<close>

text \<open>With the identity for the rounding, the functions in double arithmetic are the exact ones.\<close>

lemma steps_fl_id:
  "hard_step_fl id = hard_step" "good_step_fl id = good_step" "easy_step_fl id = easy_step"
  by (intro ext, simp add: hard_step_fl_def hard_step_def good_step_fl_def good_step_def
      easy_step_fl_def easy_step_def Let_def)+

lemma reschedule_fl_id: "reschedule_fl id = reschedule"
  by (intro ext) (simp add: reschedule_fl_def reschedule_def steps_fl_id Let_def)

lemma grade_entry_fl_id: "grade_entry_fl id = grade_entry"
  by (intro ext) (simp add: grade_entry_fl_def grade_entry_def reschedule_fl_id)

text \<open>
  The doubles nearest to some literals, and two differences: 2.3 - 0.2 is the double
  2.0999999999999996, one step below the double 2.1, and 2.5 - 0.2 is the double 2.3.
\<close>

lemma to_double_literals:
  "to_double (13 / 10) = 5854679515581645 / 4503599627370496"
  "to_double (1 / 5) = 3602879701896397 / 18014398509481984"
  "to_double (23 / 10) = 5179139571476070 / 2251799813685248"
  "to_double (21 / 10) = 4728779608739021 / 2251799813685248"
  "to_double (5 / 2) = 5 / 2"
  by code_simp+

lemma to_double_differences:
  "to_double (5179139571476070 / 2251799813685248 - 3602879701896397 / 18014398509481984)
     = 4728779608739020 / 2251799813685248"
  "to_double (5 / 2 - 3602879701896397 / 18014398509481984)
     = 5179139571476070 / 2251799813685248"
  by code_simp+

text \<open>
  C4: every record, whatever its ease, interval and repetitions, graded Again at time
  \<open>now\<close>, leaves with interval 0, repetitions 0, due = now + lapseMinutes * 60000 and
  one lapse more than before (an unset count being 0). Its ease is the prior ease
  decreased by 0.2, but not below 1.3, in the arithmetic of the code: the greater of the
  double 1.3 and the double nearest to the prior ease minus the double 0.2, for every
  rounding \<open>fl\<close>. A record without an ease has the default 2.5 as its prior ease. An ease
  of 0, which no record of the data model has, is read by \<^verbatim>\<open>entry.ease || 2.5\<close> as unset;
  nothing is said of it.
\<close>

theorem C4_again:
  "interval (snd (grade_entry_fl fl st k 0 now today (m, e))) = 0 \<and>
   repetitions (snd (grade_entry_fl fl st k 0 now today (m, e))) = 0 \<and>
   due (snd (grade_entry_fl fl st k 0 now today (m, e))) = Some (now + lapseMinutes st * 60000) \<and>
   lapses (snd (grade_entry_fl fl st k 0 now today (m, e))) =
     Some ((case lapses e of None \<Rightarrow> 0 | Some n \<Rightarrow> n) + 1) \<and>
   (ease e = None \<longrightarrow>
      ease (snd (grade_entry_fl fl st k 0 now today (m, e))) =
        Some (max (fl (13 / 10)) (fl (5 / 2 - fl (1 / 5))))) \<and>
   (\<forall>x. ease e = Some x \<and> x \<noteq> 0 \<longrightarrow>
      ease (snd (grade_entry_fl fl st k 0 now today (m, e))) =
        Some (max (fl (13 / 10)) (fl (x - fl (1 / 5)))))"
  by (simp add: grade_entry_fl_def count_new_def reschedule_fl_def or_default_def
      split: option.splits)

theorem C4_witness:
  "ease double_ease_entry = Some (5179139571476070 / 2251799813685248) \<and>
   (5179139571476070 / 2251799813685248 :: rat) \<noteq> 0 \<and>
   ease unset_ease_entry = None \<and>
   interval (snd (grade_entry_fl to_double DEFAULT_SETTINGS (Some Review) 0 1709300000000
      ''2024-03-01'' (day_meta, double_ease_entry))) = 0 \<and>
   repetitions (snd (grade_entry_fl to_double DEFAULT_SETTINGS (Some Review) 0 1709300000000
      ''2024-03-01'' (day_meta, double_ease_entry))) = 0 \<and>
   due (snd (grade_entry_fl to_double DEFAULT_SETTINGS (Some Review) 0 1709300000000
      ''2024-03-01'' (day_meta, double_ease_entry))) = Some 1709300600000 \<and>
   lapses (snd (grade_entry_fl to_double DEFAULT_SETTINGS (Some Review) 0 1709300000000
      ''2024-03-01'' (day_meta, double_ease_entry))) = Some 1 \<and>
   ease (snd (grade_entry_fl to_double DEFAULT_SETTINGS (Some Review) 0 1709300000000
      ''2024-03-01'' (day_meta, double_ease_entry))) = Some (4728779608739020 / 2251799813685248) \<and>
   ease (snd (grade_entry_fl to_double DEFAULT_SETTINGS (Some Review) 0 1709300000000
      ''2024-03-01'' (day_meta, unset_ease_entry))) = Some (5179139571476070 / 2251799813685248)"
proof -
  let ?G = "\<lambda>e. snd (grade_entry_fl to_double DEFAULT_SETTINGS (Some Review) 0 1709300000000
      ''2024-03-01'' (day_meta, e))"
  note set = C4_again [where fl = to_double and st = DEFAULT_SETTINGS and k = "Some Review"
      and now = 1709300000000 and today = "''2024-03-01''" and m = day_meta
      and e = double_ease_entry]
  note unset = C4_again [where fl = to_double and st = DEFAULT_SETTINGS and k = "Some Review"
      and now = 1709300000000 and today = "''2024-03-01''" and m = day_meta
      and e = unset_ease_entry]
  have a: "ease double_ease_entry = Some (5179139571476070 / 2251799813685248)"
    by (simp add: double_ease_entry_def)
  have b: "(5179139571476070 / 2251799813685248 :: rat) \<noteq> 0"
    by simp
  have c: "ease unset_ease_entry = None"
    by (simp add: unset_ease_entry_def)
  have v1: "max (to_double (13 / 10))
        (to_double (5179139571476070 / 2251799813685248 - to_double (1 / 5)))
      = 4728779608739020 / 2251799813685248"
    by code_simp
  have v2: "max (to_double (13 / 10)) (to_double (5 / 2 - to_double (1 / 5)))
      = 5179139571476070 / 2251799813685248"
    by code_simp
  have i: "interval (?G double_ease_entry) = 0" and r: "repetitions (?G double_ease_entry) = 0"
    using set by blast+
  have d: "due (?G double_ease_entry) = Some 1709300600000"
    using set by (simp add: DEFAULT_SETTINGS_def)
  have l: "lapses (?G double_ease_entry) = Some 1"
    using set by (simp add: double_ease_entry_def)
  have "ease (?G double_ease_entry) =
      Some (max (to_double (13 / 10))
        (to_double (5179139571476070 / 2251799813685248 - to_double (1 / 5))))"
    using set a b by blast
  then have e1: "ease (?G double_ease_entry) = Some (4728779608739020 / 2251799813685248)"
    by (simp only: v1)
  have "ease (?G unset_ease_entry) =
      Some (max (to_double (13 / 10)) (to_double (5 / 2 - to_double (1 / 5))))"
    using unset c by blast
  then have e2: "ease (?G unset_ease_entry) = Some (5179139571476070 / 2251799813685248)"
    by (simp only: v2)
  show ?thesis
    using a b c i r d l e1 e2 by blast
qed

subsection \<open>The floor of the ease\<close>

lemma reschedule_ease_ok: "ease_ok e \<Longrightarrow> ease_ok (reschedule st grade now e)"
  by (auto simp add: ease_ok_def reschedule_def hard_step_def good_step_def easy_step_def
      or_default_def Let_def split: option.splits)

lemma grade_entry_ease_ok:
  "ease_ok (snd me) \<Longrightarrow> ease_ok (snd (grade_entry st k grade now today me))"
proof -
  assume ok: "ease_ok (snd me)"
  obtain m e where c: "count_new st k (rollover today (fst me), snd me) = (m, e)"
    by (cases "count_new st k (rollover today (fst me), snd me)")
  have "ease e = ease (snd me)"
    using c by (auto simp add: count_new_def split: if_splits)
  then have "ease_ok (e\<lparr>totalReviews := totalReviews e + 1\<rparr>)"
    using ok by (simp add: ease_ok_def)
  then have "ease_ok (reschedule st grade now (e\<lparr>totalReviews := totalReviews e + 1\<rparr>))"
    by (rule reschedule_ease_ok)
  then show ?thesis
    using c by (simp add: grade_entry_def ease_ok_def)
qed

text \<open>
  C5: a record whose ease is at least 1.3 keeps an ease of at least 1.3 through every
  finite run of grading events, whatever the grades (0, 1, 2, 3 or any other value), the
  kinds of the card, the times and the days.
\<close>

theorem C5_ease_floor:
  "ease_ok (snd me) \<Longrightarrow> ease_ok (snd (grade_entry_seq st evs me))"
proof (induction evs arbitrary: me)
  case Nil
  then show ?case by simp
next
  case (Cons ev evs)
  obtain k grade now today where ev: "ev = (k, grade, now, today)"
    by (cases ev) auto
  have "ease_ok (snd (grade_entry st k grade now today me))"
    using Cons.prems by (rule grade_entry_ease_ok)
  then show ?case
    using Cons.IH ev by simp
qed

theorem C5_witness:
  "ease_ok (snd (day_meta, floor_entry)) \<and>
   ease_ok (snd (grade_entry_seq DEFAULT_SETTINGS lapse_run (day_meta, floor_entry)))"
proof -
  have h: "ease_ok (snd (day_meta, floor_entry))"
    by (simp add: ease_ok_def floor_entry_def)
  show ?thesis
    using h C5_ease_floor [OF h, of DEFAULT_SETTINGS lapse_run] by simp
qed

text \<open>On that run the ease stays on the floor.\<close>

lemma lapse_run_ease:
  "ease (snd (grade_entry_seq DEFAULT_SETTINGS lapse_run (day_meta, floor_entry))) = Some (13 / 10)"
  by (simp add: lapse_run_def grade_defs DEFAULT_SETTINGS_def day_meta_def floor_entry_def)

subsection \<open>The daily quota of new words\<close>

lemma grade_entry_newToday:
  assumes "0 \<le> dailyNewLimit st" and "newToday (fst me) \<le> dailyNewLimit st"
  shows "newToday (fst (grade_entry st k grade now today me)) \<le> dailyNewLimit st"
  using assms
  by (auto simp add: grade_entry_def count_new_def rollover_def split: prod.splits if_splits)

lemma grade_update_newToday:
  assumes "0 \<le> dailyNewLimit st" and "newToday (meta p) \<le> dailyNewLimit st"
  shows "newToday (meta (grade_update st w k grade now today p)) \<le> dailyNewLimit st"
proof -
  define e0 where "e0 = (case cards p w of Some e \<Rightarrow> e | None \<Rightarrow> fresh_entry now)"
  have "newToday (fst (grade_entry st k grade now today (meta p, e0))) \<le> dailyNewLimit st"
    using assms by (intro grade_entry_newToday) simp_all
  then show ?thesis
    by (auto simp add: grade_update_def e0_def Let_def split: prod.splits)
qed

text \<open>
  C6: a snapshot whose \<open>newToday\<close> is at most the daily limit keeps it at most the limit
  through every finite run of grading events, for any words, kinds, grades, times and
  day keys, so with any number of day rollovers. The limit is not negative: the
  configuration gives a positive integer, and a \<open>newToday\<close> that is at least 0 and at
  most the limit leaves no other case.
\<close>

theorem C6_newToday_bounded:
  assumes "0 \<le> dailyNewLimit st" and "newToday (meta p) \<le> dailyNewLimit st"
  shows "newToday (meta (grade_events st evs p)) \<le> dailyNewLimit st"
  using assms(2)
proof (induction evs arbitrary: p)
  case Nil
  then show ?case by simp
next
  case (Cons ev evs)
  have "newToday (meta (grade_update st (ev_word ev) (ev_kind ev) (ev_grade ev)
            (ev_now ev) (ev_today ev) p)) \<le> dailyNewLimit st"
    using assms(1) Cons.prems by (rule grade_update_newToday)
  then show ?case
    using Cons.IH by simp
qed

theorem C6_witness:
  "0 \<le> dailyNewLimit tight_settings \<and>
   newToday (meta (createEmptyProgress ''2024-03-01'')) \<le> dailyNewLimit tight_settings \<and>
   newToday (meta (grade_events tight_settings quota_run (createEmptyProgress ''2024-03-01'')))
     \<le> dailyNewLimit tight_settings"
proof -
  have a: "0 \<le> dailyNewLimit tight_settings"
    by (simp add: tight_settings_def)
  have b: "newToday (meta (createEmptyProgress ''2024-03-01'')) \<le> dailyNewLimit tight_settings"
    by (simp add: tight_settings_def createEmptyProgress_def)
  show ?thesis
    using a b C6_newToday_bounded [OF a b, of quota_run] by simp
qed

text \<open>On that run the quota is reached on the second day and not passed.\<close>

lemma quota_run_newToday:
  "newToday (meta (grade_events tight_settings quota_run (createEmptyProgress ''2024-03-01''))) = 1"
  by (simp add: quota_run_def tight_settings_def createEmptyProgress_def grade_update_def
      fresh_entry_def grade_defs)

section \<open>Queue partitioning and the grade operation\<close>

lemma partition_review:
  "c \<in> set (fst (partition_cards cs now xs)) \<longleftrightarrow>
   c \<in> set xs \<and> (\<exists>e. cs (word c) = Some e \<and> due_now (due e) now)"
  by (induction xs) (auto split: prod.splits option.splits if_splits)

lemma partition_fresh:
  "c \<in> set (snd (partition_cards cs now xs)) \<longleftrightarrow>
   c \<in> set xs \<and>
   (cs (word c) = None \<or> (\<exists>e. cs (word c) = Some e \<and> \<not> due_now (due e) now \<and> \<not> truthy (due e)))"
  by (induction xs) (auto split: prod.splits option.splits if_splits)

lemma fill_new_take:
  "fill_new r acc xs = acc @ take (nat \<lceil>r\<rceil> - length acc) xs"
proof (induction xs arbitrary: acc)
  case Nil
  then show ?case by simp
next
  case (Cons c rest)
  show ?case
  proof (cases "r \<le> of_nat (length acc)")
    case True
    then have "\<lceil>r\<rceil> \<le> int (length acc)"
      by (simp add: ceiling_le_iff)
    then have "nat \<lceil>r\<rceil> - length acc = 0"
      by simp
    then show ?thesis
      using True by simp
  next
    case False
    then have "\<not> \<lceil>r\<rceil> \<le> int (length acc)"
      by (simp add: ceiling_le_iff)
    then have "nat \<lceil>r\<rceil> - length acc = Suc (nat \<lceil>r\<rceil> - length (acc @ [c]))"
      by simp
    then show ?thesis
      using False Cons.IH [of "acc @ [c]"] by simp
  qed
qed

lemma buildQueues_reviewQueue:
  "set (reviewQueue (buildQueues st catalog now s)) = set (fst (buckets catalog now s))"
  by (simp add: buildQueues_def split: prod.splits)

lemma buildQueues_newQueue:
  "newQueue (buildQueues st catalog now s) =
     take (nat \<lceil>max 0 (dailyNewLimit st - newToday (meta (progress s)))\<rceil>) (snd (buckets catalog now s))"
  by (simp add: buildQueues_def fill_new_take split: prod.splits)

lemma buildQueues_filteredCards:
  "filteredCards (buildQueues st catalog now s) = level_filtered catalog s"
  by (simp add: buildQueues_def split: prod.splits)

text \<open>
  C7: \<^verbatim>\<open>buildQueues\<close> places every card of the level-filtered catalogue as follows. A
  card without a record, or with a record whose due time is unset or 0 (falsy), is in the
  bucket of new cards and not in the review queue. A card whose due time is set, not 0
  and at most \<open>now\<close> is in the review queue and not among the new cards. A card whose
  due time is set, not 0 and later than \<open>now\<close> is in neither queue. The queue of new
  cards is the bucket of new cards cut to the remaining daily quota.
\<close>

theorem C7_queue_partition:
  assumes "c \<in> set (filteredCards (buildQueues st catalog now s))"
  shows
    "(case cards (progress s) (word c) of
        None \<Rightarrow>
          c \<in> set (snd (buckets catalog now s)) \<and>
          c \<notin> set (reviewQueue (buildQueues st catalog now s))
      | Some e \<Rightarrow>
          (case due e of
             None \<Rightarrow>
               c \<in> set (snd (buckets catalog now s)) \<and>
               c \<notin> set (reviewQueue (buildQueues st catalog now s))
           | Some d \<Rightarrow>
               if d = 0 then
                 c \<in> set (snd (buckets catalog now s)) \<and>
                 c \<notin> set (reviewQueue (buildQueues st catalog now s))
               else if d \<le> now then
                 c \<in> set (reviewQueue (buildQueues st catalog now s)) \<and>
                 c \<notin> set (snd (buckets catalog now s)) \<and>
                 c \<notin> set (newQueue (buildQueues st catalog now s))
               else
                 c \<notin> set (reviewQueue (buildQueues st catalog now s)) \<and>
                 c \<notin> set (snd (buckets catalog now s)) \<and>
                 c \<notin> set (newQueue (buildQueues st catalog now s)))) \<and>
     newQueue (buildQueues st catalog now s) =
       take (nat \<lceil>max 0 (dailyNewLimit st - newToday (meta (progress s)))\<rceil>)
         (snd (buckets catalog now s))"
proof -
  have mem: "c \<in> set (level_filtered catalog s)"
    using assms by (simp add: buildQueues_filteredCards)
  have nq: "c \<notin> set (snd (buckets catalog now s)) \<Longrightarrow>
            c \<notin> set (newQueue (buildQueues st catalog now s))"
    by (auto simp add: buildQueues_newQueue dest: in_set_takeD)
  show ?thesis
    using mem nq
    by (auto simp add: buildQueues_reviewQueue buildQueues_newQueue buckets_def
        partition_review partition_fresh due_now_def truthy_def
        split: option.splits)
qed

lemmas catalog_defs =
  small_catalog_def hello_def house_def river_def stone_def cloud_def

lemmas session_defs =
  session_def initial_app_def studied_def scenario_entry_def day_meta_def createEmptyProgress_def

lemma session_filtered:
  "filteredCards (buildQueues DEFAULT_SETTINGS small_catalog 1709300000000 session)
     = [hello, house, river, stone]"
  by (simp add: buildQueues_filteredCards level_filtered_def matchesLevel_def toUpperCase_def
      upper_char_def catalog_defs session_defs)

theorem C7_witness:
  "hello \<in> set (filteredCards (buildQueues DEFAULT_SETTINGS small_catalog 1709300000000 session)) \<and>
   house \<in> set (filteredCards (buildQueues DEFAULT_SETTINGS small_catalog 1709300000000 session)) \<and>
   river \<in> set (filteredCards (buildQueues DEFAULT_SETTINGS small_catalog 1709300000000 session)) \<and>
   stone \<in> set (filteredCards (buildQueues DEFAULT_SETTINGS small_catalog 1709300000000 session)) \<and>
   hello \<in> set (snd (buckets small_catalog 1709300000000 session)) \<and>
   hello \<notin> set (reviewQueue (buildQueues DEFAULT_SETTINGS small_catalog 1709300000000 session)) \<and>
   house \<in> set (snd (buckets small_catalog 1709300000000 session)) \<and>
   house \<notin> set (reviewQueue (buildQueues DEFAULT_SETTINGS small_catalog 1709300000000 session)) \<and>
   river \<in> set (reviewQueue (buildQueues DEFAULT_SETTINGS small_catalog 1709300000000 session)) \<and>
   river \<notin> set (newQueue (buildQueues DEFAULT_SETTINGS small_catalog 1709300000000 session)) \<and>
   stone \<notin> set (reviewQueue (buildQueues DEFAULT_SETTINGS small_catalog 1709300000000 session)) \<and>
   stone \<notin> set (newQueue (buildQueues DEFAULT_SETTINGS small_catalog 1709300000000 session))"
proof -
  have f1: "hello \<in> set (filteredCards (buildQueues DEFAULT_SETTINGS small_catalog 1709300000000 session))"
    and f2: "house \<in> set (filteredCards (buildQueues DEFAULT_SETTINGS small_catalog 1709300000000 session))"
    and f3: "river \<in> set (filteredCards (buildQueues DEFAULT_SETTINGS small_catalog 1709300000000 session))"
    and f4: "stone \<in> set (filteredCards (buildQueues DEFAULT_SETTINGS small_catalog 1709300000000 session))"
    by (simp_all add: session_filtered)
  have c1: "cards (progress session) (word hello) = None"
    by (simp add: session_defs hello_def)
  have c2: "\<exists>e. cards (progress session) (word house) = Some e \<and> due e = Some 0"
    by (simp add: session_defs house_def)
  have c3: "\<exists>e. cards (progress session) (word river) = Some e \<and> due e = Some 1709299999000"
    by (simp add: session_defs river_def)
  have c4: "\<exists>e. cards (progress session) (word stone) = Some e \<and> due e = Some 1709900000000"
    by (simp add: session_defs stone_def)
  show ?thesis
    using f1 f2 f3 f4 c1 c2 c3 c4
      C7_queue_partition [OF f1] C7_queue_partition [OF f2]
      C7_queue_partition [OF f3] C7_queue_partition [OF f4]
    by auto
qed

text \<open>
  C9: with no current card, \<^verbatim>\<open>gradeCard\<close> with any grade leaves the whole state as it
  is: the snapshot with its records and daily counters, the history and both queues.
\<close>

theorem C9_no_current_card:
  "currentCard s = None \<Longrightarrow> gradeCard st catalog grade now today now' s = s"
  by (simp add: gradeCard_def)

theorem C9_witness:
  "currentCard (buildQueues DEFAULT_SETTINGS small_catalog 1709300000000 session) = None \<and>
   gradeCard DEFAULT_SETTINGS small_catalog 2 1709300000000 ''2024-03-01'' 1709300000001
       (buildQueues DEFAULT_SETTINGS small_catalog 1709300000000 session)
     = buildQueues DEFAULT_SETTINGS small_catalog 1709300000000 session"
proof -
  have h: "currentCard (buildQueues DEFAULT_SETTINGS small_catalog 1709300000000 session) = None"
    by (simp add: buildQueues_def session_def initial_app_def split: prod.splits)
  show ?thesis
    using h C9_no_current_card [OF h] by simp
qed

subsection \<open>From the record to the state\<close>

text \<open>
  With a current card, the snapshot that \<^verbatim>\<open>gradeCard\<close> leaves is the grade update of
  the card's word, and the record of that word is what \<open>grade_entry\<close> gives on its old
  record or, if it had none, on the fresh one. So what is proved of \<open>grade_entry\<close> holds
  of the operation.
\<close>

lemma gradeCard_progress:
  "currentCard s = Some c \<Longrightarrow>
   progress (gradeCard st catalog grade now today now' s) =
     grade_update st (word c) (currentKind s) grade now today (progress s)"
  by (simp add: gradeCard_def pickNextCard_def buildQueues_def split: prod.splits list.splits)

lemma grade_update_card:
  "cards (grade_update st w k grade now today p) w =
     Some (snd (grade_entry st k grade now today
       (meta p, case cards p w of Some e \<Rightarrow> e | None \<Rightarrow> fresh_entry now)))"
  by (simp add: grade_update_def Let_def split: prod.splits)

lemma grade_update_meta:
  "meta (grade_update st w k grade now today p) =
     fst (grade_entry st k grade now today
       (meta p, case cards p w of Some e \<Rightarrow> e | None \<Rightarrow> fresh_entry now))"
  by (simp add: grade_update_def Let_def split: prod.splits)

lemma gradeCard_newToday:
  assumes "0 \<le> dailyNewLimit st" and "newToday (meta (progress s)) \<le> dailyNewLimit st"
  shows "newToday (meta (progress (gradeCard st catalog grade now today now' s))) \<le> dailyNewLimit st"
proof (cases "currentCard s")
  case None
  then show ?thesis
    using assms(2) by (simp add: gradeCard_def)
next
  case (Some c)
  then show ?thesis
    using assms by (simp add: gradeCard_progress grade_update_newToday)
qed

section \<open>Load and save\<close>

lemma stored_has_cards:
  "loadProgressFromLocalStorage s = Some r \<Longrightarrow> raw_cards r \<noteq> None"
  by (auto simp add: loadProgressFromLocalStorage_def split: option.splits ls_item.splits if_splits)

lemma adopt_stored_or_previous:
  "adopt today (Some (stored_or_previous s)) = stored_or_previous s"
  by (auto simp add: adopt_def stored_or_previous_def to_raw_def
      dest: stored_has_cards split: option.splits)

text \<open>
  C3, as stated: on "not found" with no local cache, a freshly-empty snapshot is adopted,
  never the previous in-memory one. For a signed-in learner with a token, an empty local
  cache and a studied snapshot in memory, neither variant adopts the empty snapshot: the
  record of "river" is still there after the load.
\<close>

theorem C3_counterexample:
  "isSignedIn signed_in \<and> hasAuthToken signed_in \<and>
   loadProgressFromLocalStorage signed_in = None \<and>
   fst (load_choice_cloud ''2024-03-01'' NoDocument signed_in)
     \<noteq> to_raw (createEmptyProgress ''2024-03-01'') \<and>
   fst (load_choice_rest ''2024-03-01'' (Response 404 (Payload None None)) signed_in)
     \<noteq> to_raw (createEmptyProgress ''2024-03-01'') \<and>
   cards (progress (loadProgress_cloud ''2024-03-01'' NoDocument signed_in)) ''river''
     = Some (scenario_entry 1709300000000) \<and>
   cards (progress (loadProgress_rest ''2024-03-01'' (Response 404 (Payload None None)) signed_in)) ''river''
     = Some (scenario_entry 1709300000000)"
  by (simp add: signed_in_def session_defs isSignedIn_def hasAuthToken_def
      loadProgressFromLocalStorage_def getProgressStorageKey_def
      load_choice_cloud_def load_choice_rest_def loadProgress_cloud_def loadProgress_rest_def
      adopt_def stored_or_previous_def to_raw_def response_ok_def ensureProgressForToday_def
      showAuthMessage_cloud_def showAuthMessage_rest_def rollover_def)

text \<open>
  C3, amended: when the learner is authenticated (signed in; in the REST variant also
  holding a token) and the remote fetch answers "not found" (no document; status 404),
  the adopted snapshot is the local-cache snapshot if the cache holds one with both
  cards and meta, and otherwise the copy of the snapshot that was in memory when the
  load began; the snapshot of the state after the load is that one, repaired by
  \<^verbatim>\<open>ensureProgressForToday\<close>.
\<close>

theorem C3_not_found_adopts:
  "(isSignedIn s \<longrightarrow>
      fst (load_choice_cloud today NoDocument s) =
        (case loadProgressFromLocalStorage s of Some r \<Rightarrow> r | None \<Rightarrow> to_raw (progress s)) \<and>
      progress (loadProgress_cloud today NoDocument s) =
        ensureProgressForToday today
          (case loadProgressFromLocalStorage s of Some r \<Rightarrow> r | None \<Rightarrow> to_raw (progress s))) \<and>
   (isSignedIn s \<and> hasAuthToken s \<longrightarrow>
      fst (load_choice_rest today (Response 404 body) s) =
        (case loadProgressFromLocalStorage s of Some r \<Rightarrow> r | None \<Rightarrow> to_raw (progress s)) \<and>
      progress (loadProgress_rest today (Response 404 body) s) =
        ensureProgressForToday today
          (case loadProgressFromLocalStorage s of Some r \<Rightarrow> r | None \<Rightarrow> to_raw (progress s)))"
proof -
  have a: "adopt today (Some (stored_or_previous s)) =
        (case loadProgressFromLocalStorage s of Some r \<Rightarrow> r | None \<Rightarrow> to_raw (progress s))"
    by (simp add: adopt_stored_or_previous) (simp add: stored_or_previous_def)
  have c: "isSignedIn s \<Longrightarrow>
        load_choice_cloud today NoDocument s =
          (adopt today (Some (stored_or_previous s)), history s, showAuthMessage_cloud NoCloudData s)"
    by (simp add: load_choice_cloud_def)
  have r: "isSignedIn s \<Longrightarrow> hasAuthToken s \<Longrightarrow>
        load_choice_rest today (Response 404 body) s =
          (adopt today (Some (stored_or_previous s)), history s,
           showAuthMessage_rest SyncServerUnavailable s)"
    by (simp add: load_choice_rest_def response_ok_def)
  show ?thesis
    using a c r
    by (simp add: loadProgress_cloud_def loadProgress_rest_def
        showAuthMessage_cloud_def showAuthMessage_rest_def)
qed

theorem C3_witness:
  "isSignedIn signed_in \<and> hasAuthToken signed_in \<and>
   isSignedIn cached \<and> hasAuthToken cached \<and>
   loadProgressFromLocalStorage signed_in = None \<and>
   loadProgressFromLocalStorage cached = Some (to_raw (createEmptyProgress ''2024-02-27'')) \<and>
   fst (load_choice_cloud ''2024-03-01'' NoDocument signed_in) = to_raw studied \<and>
   fst (load_choice_rest ''2024-03-01'' (Response 404 (Payload None None)) signed_in) = to_raw studied \<and>
   fst (load_choice_cloud ''2024-03-01'' NoDocument cached)
     = to_raw (createEmptyProgress ''2024-02-27'') \<and>
   fst (load_choice_rest ''2024-03-01'' (Response 404 (Payload None None)) cached)
     = to_raw (createEmptyProgress ''2024-02-27'') \<and>
   progress (loadProgress_cloud ''2024-03-01'' NoDocument cached) = createEmptyProgress ''2024-03-01'' \<and>
   progress (loadProgress_rest ''2024-03-01'' (Response 404 (Payload None None)) cached)
     = createEmptyProgress ''2024-03-01''"
proof -
  have s: "isSignedIn signed_in" "hasAuthToken signed_in" "isSignedIn cached" "hasAuthToken cached"
    by (simp_all add: cached_def signed_in_def isSignedIn_def hasAuthToken_def)
  have l1: "loadProgressFromLocalStorage signed_in = None"
    by (simp add: loadProgressFromLocalStorage_def signed_in_def session_def initial_app_def)
  have l2: "loadProgressFromLocalStorage cached = Some (to_raw (createEmptyProgress ''2024-02-27''))"
    by (simp add: loadProgressFromLocalStorage_def cached_def signed_in_def
        getProgressStorageKey_def STORAGE_KEY_def to_raw_def)
  have p: "progress signed_in = studied"
    by (simp add: signed_in_def session_def)
  have r: "ensureProgressForToday ''2024-03-01'' (to_raw (createEmptyProgress ''2024-02-27''))
      = createEmptyProgress ''2024-03-01''"
    by (simp add: ensureProgressForToday_def to_raw_def createEmptyProgress_def rollover_def)
  show ?thesis
    using s l1 l2 p r
      C3_not_found_adopts [where s = signed_in and today = "''2024-03-01''" and body = "Payload None None"]
      C3_not_found_adopts [where s = cached and today = "''2024-03-01''" and body = "Payload None None"]
    by simp
qed

lemma save_localStorage:
  "localStorage (saveProgressToLocalStorage s) =
     (localStorage s)(getProgressStorageKey s \<mapsto> Json (to_raw (progress s)))"
  by (simp add: saveProgressToLocalStorage_def write_local_def)

lemma key_token_cleared [simp]:
  "getProgressStorageKey (s\<lparr>currentIdToken := None\<rparr>) = getProgressStorageKey s"
  by (simp add: getProgressStorageKey_def)

text \<open>
  C8, as stated: whenever the remote write fails, the error is re-thrown. In the REST
  variant a signed-in learner with a token whose write is answered with status 404 gets
  no error back: \<^verbatim>\<open>persistProgress\<close> returns normally.
\<close>

theorem C8_counterexample:
  "isSignedIn signed_in \<and> hasAuthToken signed_in \<and> \<not> response_ok 404 \<and>
   fst (persistProgress_rest (PostStatus 404) signed_in) = None"
  by (simp add: persistProgress_rest_def signed_in_def session_def initial_app_def
      isSignedIn_def hasAuthToken_def response_ok_def)

lemma isSignedIn_save [simp]:
  "isSignedIn (saveProgressToLocalStorage s) = isSignedIn s"
  by (simp add: isSignedIn_def saveProgressToLocalStorage_def write_local_def)

lemma localStorage_show [simp]:
  "localStorage (showAuthMessage_cloud n s) = localStorage s"
  "localStorage (showAuthMessage_rest n s) = localStorage s"
  by (simp_all add: showAuthMessage_cloud_def showAuthMessage_rest_def)

lemma authMessage_show [simp]:
  "authMessage (showAuthMessage_cloud n s) = n"
  "authMessage (showAuthMessage_rest n s) = n"
  by (simp_all add: showAuthMessage_cloud_def showAuthMessage_rest_def)

text \<open>
  C8, amended: when the learner is authenticated and the remote write fails, the
  snapshot is written to the local cache under the learner's key exactly as on success,
  a notice is shown, and the error is re-thrown, with one exception: in the REST variant
  the status 404 is not an error; there the snapshot is written locally, the notice that
  the sync server is unavailable is shown, and \<^verbatim>\<open>persistProgress\<close> returns normally. A
  failure is, in the document-store variant, a rejected write; in the REST variant a
  rejected call whose error does not carry the message 'Unauthorized' (which that
  variant keeps for its own 401 error), or a status that is not OK: 401 throws the
  'Unauthorized' error, any other one but 404 the 'Unexpected status' error.
\<close>

theorem C8_local_write_on_failure:
  "(isSignedIn s \<longrightarrow>
      fst (persistProgress_cloud (WriteFailed e) s) = Some e \<and>
      localStorage (snd (persistProgress_cloud (WriteFailed e) s)) =
        (localStorage s)(getProgressStorageKey s \<mapsto> Json (to_raw (progress s))) \<and>
      localStorage (snd (persistProgress_cloud (WriteFailed e) s)) =
        localStorage (snd (persistProgress_cloud WriteOk s)) \<and>
      authMessage (snd (persistProgress_cloud (WriteFailed e) s)) = CloudSyncFailed) \<and>
   (isSignedIn s \<and> hasAuthToken s \<and> not_unauthorized e \<longrightarrow>
      fst (persistProgress_rest (PostRejected e) s) = Some e \<and>
      localStorage (snd (persistProgress_rest (PostRejected e) s)) =
        (localStorage s)(getProgressStorageKey s \<mapsto> Json (to_raw (progress s))) \<and>
      authMessage (snd (persistProgress_rest (PostRejected e) s)) = ServerSyncFailed) \<and>
   (isSignedIn s \<and> hasAuthToken s \<and> \<not> response_ok n \<longrightarrow>
      fst (persistProgress_rest (PostStatus n) s) =
        (if n = 404 then None
         else if n = 401 then Some (Error ''Unauthorized'')
         else Some (StatusError n)) \<and>
      localStorage (snd (persistProgress_rest (PostStatus n) s)) =
        (localStorage s)(getProgressStorageKey s \<mapsto> Json (to_raw (progress s))) \<and>
      authMessage (snd (persistProgress_rest (PostStatus n) s)) =
        (if n = 404 then SyncServerUnavailable
         else if n = 401 then SessionExpired
         else ServerSyncFailed)) \<and>
   (isSignedIn s \<and> hasAuthToken s \<and> response_ok n \<longrightarrow>
      fst (persistProgress_rest (PostStatus n) s) = None \<and>
      localStorage (snd (persistProgress_rest (PostStatus n) s)) =
        (localStorage s)(getProgressStorageKey s \<mapsto> Json (to_raw (progress s))) \<and>
      authMessage (snd (persistProgress_rest (PostStatus n) s)) = NoNotice)"
proof -
  have cloud: "isSignedIn s \<Longrightarrow>
      fst (persistProgress_cloud (WriteFailed e) s) = Some e \<and>
      localStorage (snd (persistProgress_cloud (WriteFailed e) s)) =
        (localStorage s)(getProgressStorageKey s \<mapsto> Json (to_raw (progress s))) \<and>
      localStorage (snd (persistProgress_cloud (WriteFailed e) s)) =
        localStorage (snd (persistProgress_cloud WriteOk s)) \<and>
      authMessage (snd (persistProgress_cloud (WriteFailed e) s)) = CloudSyncFailed"
    by (simp add: persistProgress_cloud_def Let_def save_localStorage)
  have rejected: "isSignedIn s \<Longrightarrow> hasAuthToken s \<Longrightarrow> not_unauthorized e \<Longrightarrow>
      fst (persistProgress_rest (PostRejected e) s) = Some e \<and>
      localStorage (snd (persistProgress_rest (PostRejected e) s)) =
        (localStorage s)(getProgressStorageKey s \<mapsto> Json (to_raw (progress s))) \<and>
      authMessage (snd (persistProgress_rest (PostRejected e) s)) = ServerSyncFailed"
    by (simp add: persistProgress_rest_def save_failed_rest_def save_localStorage)
  have status: "isSignedIn s \<Longrightarrow> hasAuthToken s \<Longrightarrow>
      fst (persistProgress_rest (PostStatus n) s) =
        (if n = 401 then Some (Error ''Unauthorized'')
         else if n = 404 then None
         else if \<not> response_ok n then Some (StatusError n)
         else None) \<and>
      localStorage (snd (persistProgress_rest (PostStatus n) s)) =
        (localStorage s)(getProgressStorageKey s \<mapsto> Json (to_raw (progress s))) \<and>
      authMessage (snd (persistProgress_rest (PostStatus n) s)) =
        (if n = 401 then SessionExpired
         else if n = 404 then SyncServerUnavailable
         else if \<not> response_ok n then ServerSyncFailed
         else NoNotice)"
    by (simp add: persistProgress_rest_def save_failed_rest_def not_unauthorized_def
        save_localStorage)
  have ok401: "\<not> response_ok 401" and ok404: "\<not> response_ok 404"
    by (simp_all add: response_ok_def)
  show ?thesis
    using cloud rejected status ok401 ok404 by auto
qed

theorem C8_witness:
  "isSignedIn signed_in \<and> hasAuthToken signed_in \<and>
   not_unauthorized (Error ''Failed to fetch'') \<and> \<not> response_ok 500 \<and> \<not> response_ok 404 \<and>
   \<not> response_ok 401 \<and> response_ok 204 \<and>
   fst (persistProgress_cloud (WriteFailed (Error ''Failed to fetch'')) signed_in)
     = Some (Error ''Failed to fetch'') \<and>
   localStorage (snd (persistProgress_cloud (WriteFailed (Error ''Failed to fetch'')) signed_in))
     = [''oxford3000-progress-v1::learner-1'' \<mapsto> Json (to_raw studied)] \<and>
   authMessage (snd (persistProgress_cloud (WriteFailed (Error ''Failed to fetch'')) signed_in))
     = CloudSyncFailed \<and>
   fst (persistProgress_rest (PostRejected (Error ''Failed to fetch'')) signed_in)
     = Some (Error ''Failed to fetch'') \<and>
   localStorage (snd (persistProgress_rest (PostRejected (Error ''Failed to fetch'')) signed_in))
     = [''oxford3000-progress-v1::learner-1'' \<mapsto> Json (to_raw studied)] \<and>
   authMessage (snd (persistProgress_rest (PostRejected (Error ''Failed to fetch'')) signed_in))
     = ServerSyncFailed \<and>
   fst (persistProgress_rest (PostStatus 500) signed_in) = Some (StatusError 500) \<and>
   localStorage (snd (persistProgress_rest (PostStatus 500) signed_in))
     = [''oxford3000-progress-v1::learner-1'' \<mapsto> Json (to_raw studied)] \<and>
   authMessage (snd (persistProgress_rest (PostStatus 500) signed_in)) = ServerSyncFailed \<and>
   fst (persistProgress_rest (PostStatus 401) signed_in) = Some (Error ''Unauthorized'') \<and>
   localStorage (snd (persistProgress_rest (PostStatus 401) signed_in))
     = [''oxford3000-progress-v1::learner-1'' \<mapsto> Json (to_raw studied)] \<and>
   authMessage (snd (persistProgress_rest (PostStatus 401) signed_in)) = SessionExpired \<and>
   fst (persistProgress_rest (PostStatus 404) signed_in) = None \<and>
   localStorage (snd (persistProgress_rest (PostStatus 404) signed_in))
     = [''oxford3000-progress-v1::learner-1'' \<mapsto> Json (to_raw studied)] \<and>
   authMessage (snd (persistProgress_rest (PostStatus 404) signed_in)) = SyncServerUnavailable \<and>
   fst (persistProgress_rest (PostStatus 204) signed_in) = None \<and>
   localStorage (snd (persistProgress_rest (PostStatus 204) signed_in))
     = [''oxford3000-progress-v1::learner-1'' \<mapsto> Json (to_raw studied)] \<and>
   authMessage (snd (persistProgress_rest (PostStatus 204) signed_in)) = NoNotice"
proof -
  have s: "isSignedIn signed_in" and t: "hasAuthToken signed_in"
    by (simp_all add: signed_in_def isSignedIn_def hasAuthToken_def)
  have u: "not_unauthorized (Error ''Failed to fetch'')"
    by (simp add: not_unauthorized_def)
  have n: "\<not> response_ok 500" "\<not> response_ok 404" "\<not> response_ok 401" "response_ok 204"
    by (simp_all add: response_ok_def)
  have k: "(localStorage signed_in)(getProgressStorageKey signed_in \<mapsto> Json (to_raw (progress signed_in)))
        = [''oxford3000-progress-v1::learner-1'' \<mapsto> Json (to_raw studied)]"
    by (simp add: getProgressStorageKey_def signed_in_def STORAGE_KEY_def session_def initial_app_def)
  note w500 = C8_local_write_on_failure
      [where s = signed_in and e = "Error ''Failed to fetch''" and n = 500]
  note w404 = C8_local_write_on_failure
      [where s = signed_in and e = "Error ''Failed to fetch''" and n = 404]
  note w401 = C8_local_write_on_failure
      [where s = signed_in and e = "Error ''Failed to fetch''" and n = 401]
  note w204 = C8_local_write_on_failure
      [where s = signed_in and e = "Error ''Failed to fetch''" and n = 204]
  have a: "fst (persistProgress_cloud (WriteFailed (Error ''Failed to fetch'')) signed_in)
             = Some (Error ''Failed to fetch'') \<and>
           localStorage (snd (persistProgress_cloud (WriteFailed (Error ''Failed to fetch'')) signed_in))
             = [''oxford3000-progress-v1::learner-1'' \<mapsto> Json (to_raw studied)] \<and>
           authMessage (snd (persistProgress_cloud (WriteFailed (Error ''Failed to fetch'')) signed_in))
             = CloudSyncFailed"
    using s w500 k by metis
  have b: "fst (persistProgress_rest (PostRejected (Error ''Failed to fetch'')) signed_in)
             = Some (Error ''Failed to fetch'') \<and>
           localStorage (snd (persistProgress_rest (PostRejected (Error ''Failed to fetch'')) signed_in))
             = [''oxford3000-progress-v1::learner-1'' \<mapsto> Json (to_raw studied)] \<and>
           authMessage (snd (persistProgress_rest (PostRejected (Error ''Failed to fetch'')) signed_in))
             = ServerSyncFailed"
    using s t u w500 k by metis
  have c: "fst (persistProgress_rest (PostStatus 500) signed_in) = Some (StatusError 500) \<and>
           localStorage (snd (persistProgress_rest (PostStatus 500) signed_in))
             = [''oxford3000-progress-v1::learner-1'' \<mapsto> Json (to_raw studied)] \<and>
           authMessage (snd (persistProgress_rest (PostStatus 500) signed_in)) = ServerSyncFailed"
    using s t n(1) w500 k by simp
  have d: "fst (persistProgress_rest (PostStatus 404) signed_in) = None \<and>
           localStorage (snd (persistProgress_rest (PostStatus 404) signed_in))
             = [''oxford3000-progress-v1::learner-1'' \<mapsto> Json (to_raw studied)] \<and>
           authMessage (snd (persistProgress_rest (PostStatus 404) signed_in)) = SyncServerUnavailable"
    using s t n(2) w404 k by simp
  have e: "fst (persistProgress_rest (PostStatus 401) signed_in) = Some (Error ''Unauthorized'') \<and>
           localStorage (snd (persistProgress_rest (PostStatus 401) signed_in))
             = [''oxford3000-progress-v1::learner-1'' \<mapsto> Json (to_raw studied)] \<and>
           authMessage (snd (persistProgress_rest (PostStatus 401) signed_in)) = SessionExpired"
    using s t n(3) w401 k by simp
  have f: "fst (persistProgress_rest (PostStatus 204) signed_in) = None \<and>
           localStorage (snd (persistProgress_rest (PostStatus 204) signed_in))
             = [''oxford3000-progress-v1::learner-1'' \<mapsto> Json (to_raw studied)] \<and>
           authMessage (snd (persistProgress_rest (PostStatus 204) signed_in)) = NoNotice"
    using s t n(4) w204 k by simp
  show ?thesis
    using s t u n a b c d e f by blast
qed

text \<open>
  The proviso on the message: were a network call to reject with an error whose message
  is 'Unauthorized', the REST variant would take it for its own 401 error, whose branch
  has already written, and re-throw it without a local write.
\<close>

lemma rejected_as_unauthorized:
  "isSignedIn s \<Longrightarrow> hasAuthToken s \<Longrightarrow>
   persistProgress_rest (PostRejected (Error ''Unauthorized'')) s = (Some (Error ''Unauthorized''), s)"
  by (simp add: persistProgress_rest_def save_failed_rest_def not_unauthorized_def)

section \<open>The sanitizer\<close>

lemma sanitizeNumber_isFinite: "isFinite fb \<Longrightarrow> isFinite (sanitizeNumber conv v fb)"
  by (simp add: sanitizeNumber_def Let_def)

lemma max0_nonneg: "isFinite n \<Longrightarrow> nonneg_fin (max0 n)"
  by (cases n) (simp_all add: isFinite_def max0_def nonneg_fin_def)

lemma isFinite_Fin [simp]: "isFinite (Fin r)"
  by (simp add: isFinite_def)

lemma sanitized_nonneg: "nonneg_fin (max0 (sanitizeNumber conv v (Fin 0)))"
  by (simp add: max0_nonneg sanitizeNumber_isFinite)

lemma sanitize_entry_sane: "entry_sane (sanitize_entry conv e)"
  by (simp add: entry_sane_def sanitize_entry_def sanitized_nonneg sanitizeNumber_isFinite Let_def)

lemma sanitize_cards_sane:
  "(\<And>w x. acc w = Some x \<Longrightarrow> entry_sane x) \<Longrightarrow>
   sanitize_cards conv kvs acc w = Some x \<Longrightarrow> entry_sane x"
proof (induction kvs arbitrary: acc)
  case Nil
  then show ?case by simp
next
  case (Cons kv kvs)
  obtain k e where kv: "kv = (k, e)"
    by (cases kv)
  show ?case
  proof (cases "\<not> js_truthy e \<or> \<not> typeof_object e")
    case True
    then have "sanitize_cards conv kvs acc w = Some x"
      using Cons.prems(2) kv by simp
    then show ?thesis
      using Cons.IH Cons.prems(1) by blast
  next
    case False
    then have r: "sanitize_cards conv kvs (acc(k \<mapsto> sanitize_entry conv e)) w = Some x"
      using Cons.prems(2) kv by simp
    have "\<And>w' x'. (acc(k \<mapsto> sanitize_entry conv e)) w' = Some x' \<Longrightarrow> entry_sane x'"
      using Cons.prems(1) by (auto simp add: sanitize_entry_sane split: if_splits)
    then show ?thesis
      using Cons.IH r by blast
  qed
qed

lemma sanitizeProgress_sane:
  assumes "sanitizeProgress conv today v = Inr r" and "s_cards r w = Some x"
  shows "entry_sane x"
proof -
  have "\<And>w' x'. (Map.empty :: string \<rightharpoonup> sanitized_entry) w' = Some x' \<Longrightarrow> entry_sane x'"
    by simp
  then have "\<And>kvs. sanitize_cards conv kvs Map.empty w = Some x \<Longrightarrow> entry_sane x"
    by (rule sanitize_cards_sane)
  then show ?thesis
    using assms
    by (auto simp add: sanitizeProgress_def Let_def split: sum.splits if_splits)
qed

lemma sanitizeProgress_returns:
  "v \<noteq> JNull \<Longrightarrow> \<exists>r. sanitizeProgress conv today v = Inr r"
  by (cases v) (simp_all add: sanitizeProgress_def get_prop_def Let_def)

text \<open>
  On a body whose card has ease 1, a negative interval and an infinite due time, the
  ease goes through unchanged and the other two become 0; an entry that is not an
  object is dropped.
\<close>

lemma posted_ease_passes:
  "\<exists>r. sanitizeProgress no_strings ''2024-03-01'' posted = Inr r \<and>
       map_option s_ease (s_cards r ''hello'') = Some (Fin 1) \<and>
       map_option s_interval (s_cards r ''hello'') = Some (Fin 0) \<and>
       map_option s_due (s_cards r ''hello'') = Some (Fin 0) \<and>
       s_cards r ''junk'' = None"
  by (simp add: sanitizeProgress_def posted_def get_prop_def prop_of_def js_truthy_def
      typeof_object_def entries_def sanitize_entry_def sanitizeNumber_def Number_def
      isFinite_def max0_def Let_def)

text \<open>
  C10: for every input value, also one that is not an object, the sanitizer returns a
  snapshot whose entries are sane. It does so for every value but one
  (\<open>sanitizeProgress_returns\<close>, \<open>sanitizeProgress_sane\<close>): on \<^verbatim>\<open>null\<close> the default
  \<^verbatim>\<open>progress = {}\<close> does not apply, and the read \<^verbatim>\<open>progress.meta\<close> throws.
\<close>

theorem C10_null_throws:
  "sanitizeProgress conv today JNull = Inl TypeError"
  by (simp add: sanitizeProgress_def get_prop_def)


end
